theory Spec2Isabelle
  imports Main "HOL-Library.Word" "HOL-Library.AList"
begin

section \<open>Error diagnostics of the runtime: a shallow embedding of messages.cc\<close>

text \<open>
  The theory follows \<^verbatim>\<open>src/messages.cc\<close>: the message catalogue and its formatter
  (\<^verbatim>\<open>MessageTemplate\<close>), the call-site accessors (\<^verbatim>\<open>CallSite\<close>), the dispatcher
  (\<^verbatim>\<open>MessageHandler\<close>) and \<^verbatim>\<open>ConstructError\<close>.

  Conventions of the embedding.
  \<^item> A \<^verbatim>\<open>Handle<T>\<close> that may be the null handle is an \<open>option\<close>; dereferencing the null
    handle is the error \<open>NullHandleDereference\<close>.
  \<^item> A \<^verbatim>\<open>MaybeHandle<T>\<close> is an \<open>option\<close> (or a sum when the thrown error is named by the
    source); the empty handle is \<open>None\<close>.
  \<^item> A failing \<^verbatim>\<open>CHECK\<close> or \<^verbatim>\<open>DCHECK\<close> aborts the process; it is the error \<open>CheckFailed\<close>
    or \<open>DcheckFailed\<close>, so that the branch is visible in the model.
  \<^item> \<^verbatim>\<open>const char*\<close> and V8 strings are \<open>string\<close>: the characters before the terminating
    NUL.
  \<^item> \<^verbatim>\<open>HandleScope\<close> only manages handle memory and has no counterpart here.
  \<^item> Functions of the runtime that \<^verbatim>\<open>messages.cc\<close> calls but does not define are
    parameters of the model, or are modelled from the specification where the text says so.
\<close>

subsection \<open>Errors\<close>

datatype error =
    IllegalOperation
  | InvalidStringLength
  | DcheckFailed
  | CheckFailed
  | NullHandleDereference

text \<open>Sequencing of fallible steps: the first error ends the computation.\<close>

definition and_then :: "error + 'a \<Rightarrow> ('a \<Rightarrow> error + 'b) \<Rightarrow> error + 'b" where
  "and_then r f = (case r of Inl e \<Rightarrow> Inl e | Inr x \<Rightarrow> f x)"

definition deref :: "'a option \<Rightarrow> error + 'a" where
  "deref h = (case h of None \<Rightarrow> Inl NullHandleDereference | Some x \<Rightarrow> Inr x)"

subsection \<open>MessageTemplate: the catalogue and the three-argument formatter\<close>

text \<open>
  \<^verbatim>\<open>MESSAGE_TEMPLATES\<close> is declared in \<^verbatim>\<open>messages.h\<close>; it enumerates the pairs
  \<^verbatim>\<open>(NAME, STRING)\<close>, and the enumeration \<^verbatim>\<open>Template\<close> numbers them from \<open>0\<close>, with
  \<^verbatim>\<open>kLastMessage\<close> after the last one. The catalogue is therefore a parameter: the list of
  the format strings, indexed by template id.
\<close>

definition kLastMessage :: "string list \<Rightarrow> int" where
  "kLastMessage templates = int (length templates)"

definition TemplateString :: "string list \<Rightarrow> int \<Rightarrow> string option" where
  "TemplateString templates template_index =
     (if 0 \<le> template_index \<and> template_index < kLastMessage templates
      then Some (templates ! nat template_index)
      else None)"

text \<open>
  \<^verbatim>\<open>IncrementalStringBuilder\<close> (\<^verbatim>\<open>string-builder.h\<close>) accumulates characters and strings;
  \<^verbatim>\<open>Finish\<close> returns the accumulated string, or throws the invalid-string-length error
  when the accumulated length exceeds \<^verbatim>\<open>String::kMaxLength\<close>, which is a parameter here.
\<close>

definition AppendCharacter :: "string \<Rightarrow> char \<Rightarrow> string" where
  "AppendCharacter builder c = builder @ [c]"

definition AppendString :: "string \<Rightarrow> string \<Rightarrow> string" where
  "AppendString builder s = builder @ s"

definition Finish :: "nat \<Rightarrow> string \<Rightarrow> error + string" where
  "Finish kMaxLength builder =
     (if length builder > kMaxLength then Inl InvalidStringLength else Inr builder)"

text \<open>
  The loop of \<^verbatim>\<open>FormatMessage\<close> over the template: \<open>i\<close> is the index of the next
  argument, \<open>args\<close> the array \<^verbatim>\<open>{arg0, arg1, arg2}\<close>. \<^verbatim>\<open>DCHECK(i < arraysize(args))\<close>
  guards the read of \<^verbatim>\<open>args[i++]\<close>.
\<close>

fun format_loop :: "string \<Rightarrow> nat \<Rightarrow> string list \<Rightarrow> string \<Rightarrow> error + string" where
  "format_loop [] i args builder = Inr builder"
| "format_loop (c # cs) i args builder =
     (if c = CHR ''%'' then
        (if cs \<noteq> [] \<and> hd cs = CHR ''%''
         then format_loop (tl cs) i args (AppendCharacter builder (CHR ''%''))
         else if i < length args
              then format_loop cs (i + 1) args (AppendString builder (args ! i))
              else Inl DcheckFailed)
      else format_loop cs i args (AppendCharacter builder c))"

definition FormatMessage ::
  "string list \<Rightarrow> nat \<Rightarrow> int \<Rightarrow> string \<Rightarrow> string \<Rightarrow> string \<Rightarrow> error + string" where
  "FormatMessage templates kMaxLength template_index arg0 arg1 arg2 =
     (case TemplateString templates template_index of
        None \<Rightarrow> Inl IllegalOperation
      | Some template_string \<Rightarrow>
          and_then (format_loop template_string 0 [arg0, arg1, arg2] [])
                   (Finish kMaxLength))"

text \<open>
  The reading of a template in the words of the specification: \<open>%%\<close> is a literal percent
  sign, any other \<open>%\<close> is a placeholder, every other character stands for itself; the
  placeholders take the arguments in order.
\<close>

datatype token = Literal char | Percent | Placeholder

fun tokenize :: "string \<Rightarrow> token list" where
  "tokenize [] = []"
| "tokenize [c] = (if c = CHR ''%'' then [Placeholder] else [Literal c])"
| "tokenize (c # d # cs) =
     (if c = CHR ''%'' \<and> d = CHR ''%'' then Percent # tokenize cs
      else if c = CHR ''%'' then Placeholder # tokenize (d # cs)
      else Literal c # tokenize (d # cs))"

fun render :: "token list \<Rightarrow> string list \<Rightarrow> string" where
  "render [] args = []"
| "render (Literal c # ts) args = c # render ts args"
| "render (Percent # ts) args = CHR ''%'' # render ts args"
| "render (Placeholder # ts) [] = render ts []"
| "render (Placeholder # ts) (a # args) = a @ render ts args"

text \<open>The text of a reading: the template that is read as these tokens.\<close>

fun unparse :: "token list \<Rightarrow> string" where
  "unparse [] = []"
| "unparse (Literal c # ts) = c # unparse ts"
| "unparse (Percent # ts) = CHR ''%'' # CHR ''%'' # unparse ts"
| "unparse (Placeholder # ts) = CHR ''%'' # unparse ts"

definition placeholders :: "string \<Rightarrow> nat" where
  "placeholders template_string = count_list (tokenize template_string) Placeholder"

subsection \<open>Values of the object model\<close>

text \<open>
  The object model is an external collaborator of \<^verbatim>\<open>messages.cc\<close>. The values below carry
  what the code of \<^verbatim>\<open>messages.cc\<close> reads: the type tags its \<^verbatim>\<open>Is...\<close> predicates test, the
  own properties of an object in enumeration order with their attributes, its prototype,
  its access-check flag, and for a function the name and script of its shared function
  info. An object carries its \<open>address\<close>: two handles are identical when they refer to the
  same address. Prototype chains are finite and end in \<open>Null\<close>, which the nesting of
  \<open>JSObject\<close> expresses.
\<close>

datatype compilation_type = COMPILATION_TYPE_HOST | COMPILATION_TYPE_EVAL

datatype script_type = TYPE_NATIVE | TYPE_EXTENSION | TYPE_NORMAL

record PropertyAttributes =
  READ_ONLY :: bool
  DONT_ENUM :: bool
  DONT_DELETE :: bool

datatype obj =
    Undefined
  | Null
  | Smi int
  | String string
  | Symbol nat
  | Script (script_name: obj) (script_source_url: obj)
           (script_compilation_type: compilation_type) (script_type: script_type)
  | AccessorPair (getter: obj) (setter: obj)
  | AccessorInfo
  | JSProxy (address: nat)
  | JSObject (address: nat) (kind: js_kind) (properties: "(obj \<times> property) list")
             (prototype: obj) (access_check_needed: bool)
and js_kind =
    JS_OBJECT
  | JS_ERROR
  | JS_GLOBAL_PROXY
  | JS_FUNCTION (shared_name: obj) (shared_script: obj)
and property =
    DataProperty obj PropertyAttributes
  | AccessorProperty obj PropertyAttributes

fun IsUndefined :: "obj \<Rightarrow> bool" where
  "IsUndefined Undefined = True"
| "IsUndefined other = False"

fun IsNull :: "obj \<Rightarrow> bool" where
  "IsNull Null = True"
| "IsNull other = False"

fun IsSmi :: "obj \<Rightarrow> bool" where
  "IsSmi (Smi n) = True"
| "IsSmi other = False"

fun IsString :: "obj \<Rightarrow> bool" where
  "IsString (String s) = True"
| "IsString other = False"

fun IsName :: "obj \<Rightarrow> bool" where
  "IsName (String s) = True"
| "IsName (Symbol n) = True"
| "IsName other = False"

fun IsScript :: "obj \<Rightarrow> bool" where
  "IsScript (Script n u c t) = True"
| "IsScript other = False"

fun IsAccessorPair :: "obj \<Rightarrow> bool" where
  "IsAccessorPair (AccessorPair g s) = True"
| "IsAccessorPair other = False"

fun IsJSObject :: "obj \<Rightarrow> bool" where
  "IsJSObject (JSObject a k ps proto acn) = True"
| "IsJSObject other = False"

fun IsJSReceiver :: "obj \<Rightarrow> bool" where
  "IsJSReceiver (JSObject a k ps proto acn) = True"
| "IsJSReceiver (JSProxy a) = True"
| "IsJSReceiver other = False"

fun IsJSFunction :: "obj \<Rightarrow> bool" where
  "IsJSFunction (JSObject a (JS_FUNCTION n s) ps proto acn) = True"
| "IsJSFunction other = False"

fun IsJSError :: "obj \<Rightarrow> bool" where
  "IsJSError (JSObject a JS_ERROR ps proto acn) = True"
| "IsJSError other = False"

fun IsJSGlobalProxy :: "obj \<Rightarrow> bool" where
  "IsJSGlobalProxy (JSObject a JS_GLOBAL_PROXY ps proto acn) = True"
| "IsJSGlobalProxy other = False"

text \<open>\<^verbatim>\<open>Handle::is_identical_to\<close> and \<^verbatim>\<open>==\<close> on object pointers: the same object.\<close>

fun is_identical_to :: "obj \<Rightarrow> obj \<Rightarrow> bool" where
  "is_identical_to (JSObject a k ps proto acn) (JSObject a' k' ps' proto' acn') = (a = a')"
| "is_identical_to (JSProxy a) (JSProxy a') = (a = a')"
| "is_identical_to x y = (x = y)"

text \<open>The content of a string handle; the handle's static type makes the other cases unreachable.\<close>

fun string_of :: "obj \<Rightarrow> string" where
  "string_of (String s) = s"
| "string_of other = []"

text \<open>Roots of the heap that \<^verbatim>\<open>messages.cc\<close> names: private symbols and strings.\<close>

definition call_site_function_symbol :: obj where
  "call_site_function_symbol = Symbol 0"

definition call_site_receiver_symbol :: obj where
  "call_site_receiver_symbol = Symbol 1"

definition call_site_wasm_func_index_symbol :: obj where
  "call_site_wasm_func_index_symbol = Symbol 2"

definition call_site_wasm_obj_symbol :: obj where
  "call_site_wasm_obj_symbol = Symbol 3"

definition call_site_position_symbol :: obj where
  "call_site_position_symbol = Symbol 4"

definition call_site_constructor_symbol :: obj where
  "call_site_constructor_symbol = Symbol 5"

definition detailed_stack_trace_symbol :: obj where
  "detailed_stack_trace_symbol = Symbol 6"

definition stack_trace_symbol :: obj where
  "stack_trace_symbol = Symbol 7"

definition constructor_string :: obj where
  "constructor_string = String ''constructor''"

definition message_string :: obj where
  "message_string = String ''message''"

definition eval_string :: obj where
  "eval_string = String ''eval''"

definition empty_string :: obj where
  "empty_string = String []"

text \<open>
  Modelled from the spec: \<^verbatim>\<open>LookupIterator\<close> (\<^verbatim>\<open>lookup.h\<close>) is not under \<^verbatim>\<open>src/\<close>. The
  specification lists, among the operations consumed from the object model, ``get a named
  property'' and ``traverse a prototype chain with an access-check boundary'', and says
  that the method-name test skips interceptors. The state of the iterator right after its
  construction is: \<open>ACCESS_CHECK\<close> at an object that needs an access check, \<open>JSPROXY\<close> at a
  proxy, \<open>DATA\<close> or \<open>ACCESSOR\<close> at the first holder of the name, and \<open>NOT_FOUND\<close> when the
  search (the receiver only, or its prototype chain) is exhausted.
\<close>

datatype Configuration = OWN_SKIP_INTERCEPTOR | PROTOTYPE_CHAIN_SKIP_INTERCEPTOR

datatype lookup_state = ACCESS_CHECK | JSPROXY | NOT_FOUND | ACCESSOR obj | DATA obj

fun LookupIterator_PropertyOrElement :: "obj \<Rightarrow> obj \<Rightarrow> Configuration \<Rightarrow> lookup_state" where
  "LookupIterator_PropertyOrElement (JSObject a k ps proto acn) name config =
     (if acn then ACCESS_CHECK
      else (case map_of ps name of
              Some (DataProperty v at) \<Rightarrow> DATA v
            | Some (AccessorProperty acc at) \<Rightarrow> ACCESSOR acc
            | None \<Rightarrow>
                (if config = OWN_SKIP_INTERCEPTOR then NOT_FOUND
                 else LookupIterator_PropertyOrElement proto name config)))"
| "LookupIterator_PropertyOrElement (JSProxy a) name config = JSPROXY"
| "LookupIterator_PropertyOrElement other name config = NOT_FOUND"

text \<open>
  Modelled from the spec: \<^verbatim>\<open>JSObject::GetDataProperty\<close> is not under \<^verbatim>\<open>src/\<close>; it is
  ``get a named property'' restricted to data properties: the value of the data property
  found on the prototype chain, and \<open>undefined\<close> in every other case.
\<close>

definition GetDataProperty :: "obj \<Rightarrow> obj \<Rightarrow> obj" where
  "GetDataProperty object name =
     (case LookupIterator_PropertyOrElement object name PROTOTYPE_CHAIN_SKIP_INTERCEPTOR of
        DATA v \<Rightarrow> v
      | other \<Rightarrow> Undefined)"

text \<open>
  Modelled from the spec: \<^verbatim>\<open>KeyAccumulator::GetOwnEnumPropertyKeys\<close> (\<^verbatim>\<open>keys.h\<close>) is not
  under \<^verbatim>\<open>src/\<close>; it is ``enumerate own enumerable keys'': the keys of the own properties
  that are not \<open>DONT_ENUM\<close>, in the order of the object.
\<close>

fun attributes_of :: "property \<Rightarrow> PropertyAttributes" where
  "attributes_of (DataProperty v at) = at"
| "attributes_of (AccessorProperty acc at) = at"

fun GetOwnEnumPropertyKeys :: "obj \<Rightarrow> obj list" where
  "GetOwnEnumPropertyKeys (JSObject a k ps proto acn) =
     map fst (filter (\<lambda>(key, p). \<not> DONT_ENUM (attributes_of p)) ps)"
| "GetOwnEnumPropertyKeys other = []"

subsection \<open>CallSite\<close>

text \<open>
  Functions of the runtime that the accessors call and \<^verbatim>\<open>messages.cc\<close> does not define are
  the fields of \<open>callsite_env\<close>: \<^verbatim>\<open>JSFunction::GetName\<close>, \<^verbatim>\<open>wasm::GetWasmFunctionNameOrNull\<close>,
  \<^verbatim>\<open>Script::GetLineNumber\<close>, \<^verbatim>\<open>Script::GetColumnNumber\<close> (both count from \<open>0\<close>) and
  \<^verbatim>\<open>Object::ToObject\<close> (a \<^verbatim>\<open>MaybeHandle\<close>).
\<close>

record callsite_env =
  JSFunction_GetName :: "obj \<Rightarrow> string"
  GetWasmFunctionNameOrNull :: "obj \<Rightarrow> 32 word \<Rightarrow> obj"
  Script_GetLineNumber :: "obj \<Rightarrow> int \<Rightarrow> int"
  Script_GetColumnNumber :: "obj \<Rightarrow> int \<Rightarrow> int"
  Object_ToObject :: "obj \<Rightarrow> obj option"

text \<open>
  The members of \<^verbatim>\<open>class CallSite\<close>. The class is declared in \<^verbatim>\<open>messages.h\<close>, which gives
  \<^verbatim>\<open>pos_\<close> and \<^verbatim>\<open>wasm_func_index_\<close> the initial value \<open>-1\<close>; the three handles start as null
  handles. A member \<^verbatim>\<open>x_\<close> of the class is the field \<open>site_x\<close> of the record.
\<close>

record CallSite =
  site_receiver :: "obj option"
  site_fun :: "obj option"
  site_pos :: int
  site_wasm_obj :: "obj option"
  site_wasm_func_index :: "32 word"

definition CallSite_initial :: CallSite where
  "CallSite_initial =
     \<lparr>site_receiver = None, site_fun = None, site_pos = - 1, site_wasm_obj = None, site_wasm_func_index = - 1\<rparr>"

definition IsJavaScript :: "CallSite \<Rightarrow> bool" where
  "IsJavaScript cs = (site_fun cs \<noteq> None)"

definition IsWasm :: "CallSite \<Rightarrow> bool" where
  "IsWasm cs = (site_wasm_obj cs \<noteq> None)"

text \<open>
  \<^verbatim>\<open>Object::ToInt32\<close> succeeds on a number that is a 32-bit integer; of the values here these
  are the small integers.
\<close>

fun ToInt32 :: "obj \<Rightarrow> int option" where
  "ToInt32 (Smi n) = Some n"
| "ToInt32 other = None"

fun Smi_value :: "obj \<Rightarrow> int" where
  "Smi_value (Smi n) = n"
| "Smi_value other = 0"

text \<open>The last step of the constructor: \<^verbatim>\<open>CHECK(...->ToInt32(&pos_))\<close>.\<close>

definition read_position :: "obj \<Rightarrow> CallSite \<Rightarrow> error + CallSite" where
  "read_position call_site_obj cs =
     (case ToInt32 (GetDataProperty call_site_obj call_site_position_symbol) of
        None \<Rightarrow> Inl CheckFailed
      | Some p \<Rightarrow> Inr (cs\<lparr>site_pos := p\<rparr>))"

definition CallSite_new :: "obj \<Rightarrow> error + CallSite" where
  "CallSite_new call_site_obj =
     (let maybe_function = GetDataProperty call_site_obj call_site_function_symbol in
      if IsJSFunction maybe_function then
        read_position call_site_obj
          (CallSite_initial
             \<lparr>site_fun := Some maybe_function,
              site_receiver := Some (GetDataProperty call_site_obj call_site_receiver_symbol)\<rparr>)
      else
        (let maybe_wasm_func_index =
               GetDataProperty call_site_obj call_site_wasm_func_index_symbol in
         if \<not> IsSmi maybe_wasm_func_index then Inr CallSite_initial
         else if Smi_value maybe_wasm_func_index < 0 then Inl DcheckFailed
         else
           read_position call_site_obj
             (CallSite_initial
                \<lparr>site_wasm_obj := Some (GetDataProperty call_site_obj call_site_wasm_obj_symbol),
                 site_wasm_func_index := word_of_int (Smi_value maybe_wasm_func_index)\<rparr>)))"

definition GetFileName :: "CallSite \<Rightarrow> error + obj" where
  "GetFileName cs =
     (if \<not> IsJavaScript cs then Inr Null
      else and_then (deref (site_fun cs)) (\<lambda>f.
        let script = shared_script (kind f) in
        if \<not> IsScript script then Inr Null
        else Inr (script_name script)))"

definition GetFunctionName :: "callsite_env \<Rightarrow> CallSite \<Rightarrow> error + obj" where
  "GetFunctionName env cs =
     (if IsWasm cs then
        and_then (deref (site_wasm_obj cs)) (\<lambda>w.
          Inr (GetWasmFunctionNameOrNull env w (site_wasm_func_index cs)))
      else and_then (deref (site_fun cs)) (\<lambda>f.
        let result = JSFunction_GetName env f in
        if length result \<noteq> 0 then Inr (String result)
        else
          (let script = shared_script (kind f) in
           if IsScript script \<and> script_compilation_type script = COMPILATION_TYPE_EVAL
           then Inr eval_string
           else Inr Null)))"

definition GetScriptNameOrSourceUrl :: "CallSite \<Rightarrow> error + obj" where
  "GetScriptNameOrSourceUrl cs =
     (if \<not> IsJavaScript cs then Inr Null
      else and_then (deref (site_fun cs)) (\<lambda>f.
        let script_obj = shared_script (kind f) in
        if \<not> IsScript script_obj then Inr Null
        else
          (let source_url = script_source_url script_obj in
           if IsString source_url then Inr source_url
           else Inr (script_name script_obj))))"

definition CheckMethodName :: "obj \<Rightarrow> obj \<Rightarrow> obj \<Rightarrow> Configuration \<Rightarrow> bool" where
  "CheckMethodName object name f config =
     (case LookupIterator_PropertyOrElement object name config of
        DATA v \<Rightarrow> is_identical_to v f
      | ACCESSOR accessors \<Rightarrow>
          (if IsAccessorPair accessors
           then is_identical_to (getter accessors) f \<or> is_identical_to (setter accessors) f
           else False)
      | other \<Rightarrow> False)"

text \<open>
  The two loops of \<^verbatim>\<open>GetMethodName\<close>. \<open>result\<close> is the handle \<^verbatim>\<open>result\<close> of the source,
  null until a first key matches. The inner loop either leaves through
  \<^verbatim>\<open>return null_value()\<close> (\<open>Return\<close>) or runs to its end (\<open>Continue\<close>, with the handle).
\<close>

datatype inner_loop = Return obj | Continue "obj option"

fun scan_keys :: "obj list \<Rightarrow> obj \<Rightarrow> obj \<Rightarrow> obj option \<Rightarrow> inner_loop" where
  "scan_keys [] current_obj f result = Continue result"
| "scan_keys (key # keys) current_obj f result =
     (if \<not> IsName key then scan_keys keys current_obj f result
      else if \<not> CheckMethodName current_obj key f OWN_SKIP_INTERCEPTOR
      then scan_keys keys current_obj f result
      else if result \<noteq> None then Return Null
      else scan_keys keys current_obj f (Some key))"

definition finish_walk :: "obj option \<Rightarrow> obj" where
  "finish_walk result = (case result of Some name \<Rightarrow> name | None \<Rightarrow> Null)"

text \<open>
  The outer loop: \<^verbatim>\<open>PrototypeIterator\<close> from the receiver (\<^verbatim>\<open>kStartAtReceiver\<close>) to the
  \<open>null\<close> that ends the chain; it is left early at a link that is not a \<^verbatim>\<open>JSObject\<close> or
  that needs an access check.
\<close>

fun walk_prototype_chain :: "obj \<Rightarrow> obj \<Rightarrow> obj option \<Rightarrow> obj" where
  "walk_prototype_chain (JSObject a k ps proto acn) f result =
     (if acn then finish_walk result
      else (case scan_keys (GetOwnEnumPropertyKeys (JSObject a k ps proto acn))
                   (JSObject a k ps proto acn) f result of
              Return v \<Rightarrow> v
            | Continue result' \<Rightarrow> walk_prototype_chain proto f result'))"
| "walk_prototype_chain other f result = finish_walk result"

text \<open>
  Modelled from the spec: \<^verbatim>\<open>String::IsUtf8EqualTo(str, true)\<close> and
  \<^verbatim>\<open>NewProperSubString\<close> are not under \<^verbatim>\<open>src/\<close>; the specification says ``strip a leading
  \<open>"get "\<close>/\<open>"set "\<close> prefix from the function's declared name''.
\<close>

definition strip_accessor_prefix :: "string \<Rightarrow> string" where
  "strip_accessor_prefix name =
     (if take 4 name = ''get '' \<or> take 4 name = ''set '' then drop 4 name else name)"

definition GetMethodName :: "callsite_env \<Rightarrow> CallSite \<Rightarrow> error + obj" where
  "GetMethodName env cs =
     (if \<not> IsJavaScript cs then Inr Null
      else and_then (deref (site_receiver cs)) (\<lambda>r.
        if IsNull r \<or> IsUndefined r then Inr Null
        else (case Object_ToObject env r of
                None \<Rightarrow> Inl CheckFailed
              | Some receiver \<Rightarrow>
                  if \<not> IsJSObject receiver then Inr Null
                  else and_then (deref (site_fun cs)) (\<lambda>f.
                    let function_name = shared_name (kind f);
                        name = String (strip_accessor_prefix (string_of function_name))
                    in if IsString function_name \<and>
                          CheckMethodName receiver name f PROTOTYPE_CHAIN_SKIP_INTERCEPTOR
                       then Inr name
                       else Inr (walk_prototype_chain receiver f None)))))"

text \<open>
  The sum of two \<^verbatim>\<open>int\<close>s as the machine computes it: in 32 bits, two's complement.
\<close>

definition int_plus :: "int \<Rightarrow> int \<Rightarrow> int" where
  "int_plus a b = sint (word_of_int a + word_of_int b :: 32 word)"

definition GetLineNumber :: "callsite_env \<Rightarrow> CallSite \<Rightarrow> error + int" where
  "GetLineNumber env cs =
     (if site_pos cs \<ge> 0 \<and> IsJavaScript cs then
        and_then (deref (site_fun cs)) (\<lambda>f.
          let script_obj = shared_script (kind f) in
          if IsScript script_obj
          then Inr (int_plus (Script_GetLineNumber env script_obj (site_pos cs)) 1)
          else Inr (- 1))
      else Inr (- 1))"

definition GetColumnNumber :: "callsite_env \<Rightarrow> CallSite \<Rightarrow> error + int" where
  "GetColumnNumber env cs =
     (if site_pos cs \<ge> 0 \<and> IsJavaScript cs then
        and_then (deref (site_fun cs)) (\<lambda>f.
          let script_obj = shared_script (kind f) in
          if IsScript script_obj
          then Inr (int_plus (Script_GetColumnNumber env script_obj (site_pos cs)) 1)
          else Inr (- 1))
      else Inr (- 1))"

definition IsNative :: "CallSite \<Rightarrow> error + bool" where
  "IsNative cs =
     (if \<not> IsJavaScript cs then Inr False
      else and_then (deref (site_fun cs)) (\<lambda>f.
        let script = shared_script (kind f) in
        Inr (IsScript script \<and> script_type script = TYPE_NATIVE)))"

definition IsToplevel :: "CallSite \<Rightarrow> error + bool" where
  "IsToplevel cs =
     (if IsWasm cs then Inr False
      else and_then (deref (site_receiver cs)) (\<lambda>r.
        Inr (IsJSGlobalProxy r \<or> IsNull r \<or> IsUndefined r)))"

definition IsEval :: "CallSite \<Rightarrow> error + bool" where
  "IsEval cs =
     (if \<not> IsJavaScript cs then Inr False
      else and_then (deref (site_fun cs)) (\<lambda>f.
        let script = shared_script (kind f) in
        Inr (IsScript script \<and> script_compilation_type script = COMPILATION_TYPE_EVAL)))"

definition IsConstructor :: "CallSite \<Rightarrow> error + bool" where
  "IsConstructor cs =
     and_then (deref (site_receiver cs)) (\<lambda>r.
       if is_identical_to r call_site_constructor_symbol then Inr True
       else if \<not> IsJavaScript cs \<or> \<not> IsJSObject r then Inr False
       else and_then (deref (site_fun cs)) (\<lambda>f.
         Inr (is_identical_to (GetDataProperty r constructor_string) f)))"

subsection \<open>The isolate, messages and locations\<close>

text \<open>
  The part of the isolate that \<^verbatim>\<open>messages.cc\<close> reads and writes: the pending exception
  (\<open>None\<close> when \<^verbatim>\<open>has_pending_exception()\<close> is false), the scheduled exception, the flag
  \<^verbatim>\<open>external_caught_exception\<close> and the registry \<^verbatim>\<open>message_listeners\<close>. A slot of the registry
  is \<^verbatim>\<open>undefined\<close> (a removed listener) or a listener object holding the address of its
  callback and its data.
\<close>

datatype listener_slot = Tombstone | Listener (callback_address: nat) (callback_data: obj)

record isolate =
  pending_exception :: "obj option"
  scheduled_exception :: "obj option"
  external_caught_exception :: bool
  message_listeners :: "listener_slot list"

record JSMessageObject =
  message_type :: int
  message_argument :: obj
  message_start_position :: int
  message_end_position :: int
  message_script :: obj
  message_stack_frames :: obj

text \<open>
  A \<^verbatim>\<open>MessageLocation\<close>; the default constructor leaves the script handle null and both
  positions \<open>-1\<close>.
\<close>

record MessageLocation =
  location_script :: "obj option"
  location_start_pos :: int
  location_end_pos :: int
  location_function :: "obj option"

definition MessageLocation_default :: MessageLocation where
  "MessageLocation_default =
     \<lparr>location_script = None, location_start_pos = - 1, location_end_pos = - 1,
      location_function = None\<rparr>"

definition has_pending_exception :: "isolate \<Rightarrow> bool" where
  "has_pending_exception iso0 = (pending_exception iso0 \<noteq> None)"

definition clear_pending_exception :: "isolate \<Rightarrow> isolate" where
  "clear_pending_exception iso0 = iso0\<lparr>pending_exception := None\<rparr>"

definition set_external_caught_exception :: "bool \<Rightarrow> isolate \<Rightarrow> isolate" where
  "set_external_caught_exception b iso0 = iso0\<lparr>external_caught_exception := b\<rparr>"

definition has_scheduled_exception :: "isolate \<Rightarrow> bool" where
  "has_scheduled_exception iso0 = (scheduled_exception iso0 \<noteq> None)"

definition clear_scheduled_exception :: "isolate \<Rightarrow> isolate" where
  "clear_scheduled_exception iso0 = iso0\<lparr>scheduled_exception := None\<rparr>"

text \<open>
  Modelled from the spec: \<^verbatim>\<open>Isolate::Throw\<close> is not under \<^verbatim>\<open>src/\<close>; a thrown value becomes
  the ``ambient pending failure'' of the runtime.
\<close>

definition Throw :: "obj \<Rightarrow> isolate \<Rightarrow> isolate" where
  "Throw exception iso0 = iso0\<lparr>pending_exception := Some exception\<rparr>"

text \<open>
  The runtime around \<^verbatim>\<open>messages.cc\<close>, as parameters.
  \<^item> \<open>MESSAGE_TEMPLATES\<close> and \<open>String_kMaxLength\<close>: the catalogue and the length limit.
  \<^item> \<open>TryCall_no_side_effects_to_string\<close>: \<^verbatim>\<open>Execution::TryCall\<close> of
    \<^verbatim>\<open>no_side_effects_to_string_fun\<close> with receiver \<open>undefined\<close> and the one argument.
  \<^item> \<open>Object_ToString\<close>: \<^verbatim>\<open>Object::ToString\<close>, a \<^verbatim>\<open>MaybeHandle<String>\<close>.
  \<^item> \<open>String_ToCString\<close>: \<^verbatim>\<open>String::ToCString(DISALLOW_NULLS)\<close>.
  \<^item> \<open>callback_at\<close>: the embedder's code at a callback address, called with the message and
    the data.
  \<^item> \<open>TryCatch_enter\<close>, \<open>TryCatch_leave\<close>: the constructor of a \<^verbatim>\<open>v8::TryCatch\<close> and its
    destructor; the destructor is given the two settings \<^verbatim>\<open>verbose\<close> and \<^verbatim>\<open>capture_message\<close>
    of the handler (\<open>false\<close> and \<open>true\<close> unless changed).
  \<^item> \<open>illegal_access\<close>, \<open>invalid_string_length_error\<close>: the values thrown by
    \<^verbatim>\<open>ThrowIllegalOperation\<close> and by a builder that has overflowed.
  \<^item> \<open>JSObject_New\<close>, \<open>CaptureDetailedStackTrace\<close>, \<open>CaptureSimpleStackTrace\<close>: used by
    \<^verbatim>\<open>ConstructError\<close>, see there.
  Each of them may change the isolate, and the conversions and the allocation may fail.
\<close>

datatype FrameSkipMode = SKIP_FIRST | SKIP_UNTIL_SEEN | SKIP_NONE

record runtime =
  MESSAGE_TEMPLATES :: "string list"
  String_kMaxLength :: nat
  TryCall_no_side_effects_to_string :: "obj \<Rightarrow> isolate \<Rightarrow> obj option \<times> isolate"
  Object_ToString :: "obj \<Rightarrow> isolate \<Rightarrow> string option \<times> isolate"
  String_ToCString :: "string \<Rightarrow> string"
  callback_at :: "nat \<Rightarrow> JSMessageObject \<Rightarrow> obj \<Rightarrow> isolate \<Rightarrow> isolate"
  TryCatch_enter :: "isolate \<Rightarrow> isolate"
  TryCatch_leave :: "bool \<Rightarrow> bool \<Rightarrow> isolate \<Rightarrow> isolate"
  illegal_access :: obj
  invalid_string_length_error :: obj
  JSObject_New :: "obj \<Rightarrow> obj \<Rightarrow> isolate \<Rightarrow> obj option \<times> isolate"
  CaptureDetailedStackTrace :: "obj \<Rightarrow> isolate \<Rightarrow> obj option \<times> isolate"
  CaptureSimpleStackTrace ::
    "obj \<Rightarrow> FrameSkipMode \<Rightarrow> obj option \<Rightarrow> isolate \<Rightarrow> obj option \<times> isolate"

subsection \<open>MessageTemplate: the overload for one value\<close>

text \<open>
  The three-argument \<open>FormatMessage\<close> above returns the thrown error as a value. The
  overload below swallows that error and goes on; what the throw leaves in the isolate is
  applied here. A failed \<^verbatim>\<open>DCHECK\<close> is no exception: it ends the run.
\<close>

definition thrown_value :: "runtime \<Rightarrow> error \<Rightarrow> obj" where
  "thrown_value rt e =
     (if e = IllegalOperation then illegal_access rt else invalid_string_length_error rt)"

definition is_exception :: "error \<Rightarrow> bool" where
  "is_exception e = (e = IllegalOperation \<or> e = InvalidStringLength)"

definition error_literal :: string where
  "error_literal = ''<error>''"

definition format_with_first_argument ::
  "runtime \<Rightarrow> int \<Rightarrow> string \<Rightarrow> isolate \<Rightarrow> error + (string \<times> isolate)" where
  "format_with_first_argument rt template_index result_string iso0 =
     (case FormatMessage (MESSAGE_TEMPLATES rt) (String_kMaxLength rt) template_index
             result_string [] [] of
        Inl e \<Rightarrow>
          (if is_exception e then Inr (error_literal, Throw (thrown_value rt e) iso0)
           else Inl e)
      | Inr formatted \<Rightarrow> Inr (formatted, iso0))"

definition FormatMessage_value ::
  "runtime \<Rightarrow> int \<Rightarrow> obj \<Rightarrow> isolate \<Rightarrow> error + (string \<times> isolate)" where
  "FormatMessage_value rt template_index arg iso0 =
     (if IsString arg then
        format_with_first_argument rt template_index (string_of arg) iso0
      else
        (case TryCall_no_side_effects_to_string rt arg iso0 of
           (None, iso') \<Rightarrow> Inr (error_literal, iso')
         | (Some result, iso') \<Rightarrow>
             (if \<not> IsString result then Inr (error_literal, iso')
              else format_with_first_argument rt template_index (string_of result) iso')))"

subsection \<open>MessageHandler\<close>

text \<open>\<^verbatim>\<open>PrintF\<close> of an \<^verbatim>\<open>int\<close> with \<^verbatim>\<open>%i\<close>: the decimal numeral, with a minus sign.\<close>

definition digit_char :: "nat \<Rightarrow> char" where
  "digit_char d = ''0123456789'' ! d"

fun decimal_of_nat :: "nat \<Rightarrow> string" where
  "decimal_of_nat n =
     (if n div 10 = 0 then [digit_char n]
      else decimal_of_nat (n div 10) @ [digit_char (n mod 10)])"

declare decimal_of_nat.simps [simp del]

definition decimal_of_int :: "int \<Rightarrow> string" where
  "decimal_of_int i =
     (if i < 0 then CHR ''-'' # decimal_of_nat (nat (- i)) else decimal_of_nat (nat i))"

text \<open>
  What the dispatcher does to the outside is recorded as a list of events, in order: a
  line written by \<^verbatim>\<open>PrintF\<close>, and a call of a listener's callback with its two arguments.
\<close>

datatype event = Printed string | Called nat JSMessageObject obj

definition GetMessage ::
  "runtime \<Rightarrow> JSMessageObject \<Rightarrow> isolate \<Rightarrow> error + (string \<times> isolate)" where
  "GetMessage rt message iso0 =
     FormatMessage_value rt (message_type message) (message_argument message) iso0"

definition GetLocalizedMessage ::
  "runtime \<Rightarrow> JSMessageObject \<Rightarrow> isolate \<Rightarrow> error + (string \<times> isolate)" where
  "GetLocalizedMessage rt message iso0 =
     (case GetMessage rt message iso0 of
        Inl e \<Rightarrow> Inl e
      | Inr (text, iso') \<Rightarrow> Inr (String_ToCString rt text, iso'))"

definition DefaultMessageReport ::
  "runtime \<Rightarrow> MessageLocation option \<Rightarrow> JSMessageObject \<Rightarrow> isolate \<Rightarrow>
   error + (event list \<times> isolate)" where
  "DefaultMessageReport rt loc message_obj iso0 =
     (case GetLocalizedMessage rt message_obj iso0 of
        Inl e \<Rightarrow> Inl e
      | Inr (str, iso') \<Rightarrow>
          (case loc of
             None \<Rightarrow> Inr ([Printed (str @ [CHR 0x0A])], iso')
           | Some l \<Rightarrow>
               (case location_script l of
                  None \<Rightarrow> Inl NullHandleDereference
                | Some script \<Rightarrow>
                    (let data = script_name script;
                         data_str = (if IsString data
                                     then Some (String_ToCString rt (string_of data))
                                     else None)
                     in Inr ([Printed ((case data_str of Some d \<Rightarrow> d | None \<Rightarrow> ''<unknown>'')
                                       @ '':'' @ decimal_of_int (location_start_pos l)
                                       @ '': '' @ str @ [CHR 0x0A])],
                             iso')))))"

text \<open>
  \<^verbatim>\<open>NeanderArray::get\<close> asserts that the index is below the length of the array.
\<close>

definition NeanderArray_get :: "listener_slot list \<Rightarrow> nat \<Rightarrow> error + listener_slot" where
  "NeanderArray_get listeners i =
     (if i < length listeners then Inr (listeners ! i) else Inl DcheckFailed)"

text \<open>
  The loop over the registry. The length was read before the loop (the indices are the
  list \<open>is\<close>); the slots are read from the registry as it is when the loop reaches them, as
  the source reads them through the handle of the registry.
\<close>

fun dispatch_to_listeners ::
  "runtime \<Rightarrow> JSMessageObject \<Rightarrow> obj \<Rightarrow> nat list \<Rightarrow> isolate \<Rightarrow> error + (event list \<times> isolate)"
  where
  "dispatch_to_listeners rt message exception [] iso0 = Inr ([], iso0)"
| "dispatch_to_listeners rt message exception (i # is) iso0 =
     (case NeanderArray_get (message_listeners iso0) i of
        Inl e \<Rightarrow> Inl e
      | Inr Tombstone \<Rightarrow> dispatch_to_listeners rt message exception is iso0
      | Inr (Listener callback data) \<Rightarrow>
          (let argument = (if IsUndefined data then exception else data);
               iso1 = TryCatch_leave rt False True
                        (callback_at rt callback message argument (TryCatch_enter rt iso0));
               iso2 = (if has_scheduled_exception iso1 then clear_scheduled_exception iso1
                       else iso1)
           in case dispatch_to_listeners rt message exception is iso2 of
                Inl e \<Rightarrow> Inl e
              | Inr (events, iso') \<Rightarrow> Inr (Called callback message argument # events, iso')))"

text \<open>
  The block of \<^verbatim>\<open>ReportMessage\<close> that turns an object argument into a string; it writes the
  argument of the message in place.
\<close>

definition exception_literal :: string where
  "exception_literal = ''exception''"

definition stringify_argument ::
  "runtime \<Rightarrow> JSMessageObject \<Rightarrow> isolate \<Rightarrow> JSMessageObject \<times> isolate" where
  "stringify_argument rt message iso0 =
     (if IsJSObject (message_argument message) then
        (let argument = message_argument message;
             (maybe_stringified, iso') =
               (if IsJSError argument then TryCall_no_side_effects_to_string rt argument iso0
                else
                  (let (s, iso1) = Object_ToString rt argument (TryCatch_enter rt iso0)
                   in (map_option String s, TryCatch_leave rt False False iso1)));
             stringified = (case maybe_stringified of
                              Some v \<Rightarrow> v
                            | None \<Rightarrow> String exception_literal)
         in (message\<lparr>message_argument := stringified\<rparr>, iso'))
      else (message, iso0))"

text \<open>
  Modelled from the spec: \<^verbatim>\<open>Isolate::ExceptionScope\<close> is not under \<^verbatim>\<open>src/\<close>; the pending
  failure is ``saved and restored via scoped acquire/release on every exit path''. The
  scope is entered after the exception for the listeners has been read, and left when
  \<open>ReportMessage\<close> returns.
\<close>

definition ExceptionScope_leave :: "obj option \<Rightarrow> isolate \<Rightarrow> isolate" where
  "ExceptionScope_leave saved iso0 = iso0\<lparr>pending_exception := saved\<rparr>"

text \<open>
  The message is an object of the heap, and \<open>ReportMessage\<close> writes its argument in
  place before it looks at the registry. The first component of the result is the
  message as the run leaves it, whether the run returns or is ended by a failed check;
  the second component is the failure, or the events of the run and the isolate it
  returns with.
\<close>

definition ReportMessage ::
  "runtime \<Rightarrow> MessageLocation option \<Rightarrow> JSMessageObject \<Rightarrow> isolate \<Rightarrow>
   JSMessageObject \<times> (error + (event list \<times> isolate))" where
  "ReportMessage rt loc message iso0 =
     (let exception = (case pending_exception iso0 of Some e \<Rightarrow> e | None \<Rightarrow> Undefined);
          saved = pending_exception iso0;
          iso1 = set_external_caught_exception False (clear_pending_exception iso0);
          (message', iso2) = stringify_argument rt message iso1;
          global_length = length (message_listeners iso2)
      in (message',
          case
            (if global_length = 0 then
               (case DefaultMessageReport rt loc message' iso2 of
                  Inl e \<Rightarrow> Inl e
                | Inr (events, iso3) \<Rightarrow>
                    Inr (events,
                         if has_scheduled_exception iso3 then clear_scheduled_exception iso3
                         else iso3))
             else dispatch_to_listeners rt message' exception [0..<global_length] iso2)
          of
            Inl e \<Rightarrow> Inl e
          | Inr (events, iso4) \<Rightarrow> Inr (events, ExceptionScope_leave saved iso4)))"

subsection \<open>ConstructError\<close>

text \<open>
  Modelled from the spec: \<^verbatim>\<open>JSObject::SetOwnPropertyIgnoreAttributes\<close> and
  \<^verbatim>\<open>JSReceiver::SetProperty\<close> are not under \<^verbatim>\<open>src/\<close>; they are ``get/set a named property
  with enumerability/writability/configurability flags''. Defining an own property puts
  the data property with the given attributes in the place of the name, or after the
  last own property; it is defined on objects only. A plain store creates the property
  with no attribute set.
\<close>

definition NONE :: PropertyAttributes where
  "NONE = \<lparr>READ_ONLY = False, DONT_ENUM = False, DONT_DELETE = False\<rparr>"

definition DONT_ENUM_only :: PropertyAttributes where
  "DONT_ENUM_only = \<lparr>READ_ONLY = False, DONT_ENUM = True, DONT_DELETE = False\<rparr>"

fun SetOwnPropertyIgnoreAttributes ::
  "obj \<Rightarrow> obj \<Rightarrow> obj \<Rightarrow> PropertyAttributes \<Rightarrow> obj option" where
  "SetOwnPropertyIgnoreAttributes (JSObject a k ps proto acn) name v attributes =
     Some (JSObject a k (AList.update name (DataProperty v attributes) ps) proto acn)"
| "SetOwnPropertyIgnoreAttributes other name v attributes = None"

definition own_property :: "obj \<Rightarrow> obj \<Rightarrow> property option" where
  "own_property object name = map_of (properties object) name"

text \<open>
  Modelled from the spec: \<^verbatim>\<open>Isolate::CaptureAndSetDetailedStackTrace\<close> and
  \<^verbatim>\<open>Isolate::CaptureAndSetSimpleStackTrace\<close> are not under \<^verbatim>\<open>src/\<close>. The specification
  describes the error object as ``message property, captured raw frames'' and the capture
  as a walk of the live call stack under the skip mode; a ``property-definition or
  stack-walk failure'' fails the construction. The walk itself is the parameter
  \<open>CaptureDetailedStackTrace\<close> or \<open>CaptureSimpleStackTrace\<close> of the runtime, which returns
  the captured frames or fails; the frames are stored on the error object under a private
  symbol.
\<close>

definition CaptureAndSetDetailedStackTrace ::
  "runtime \<Rightarrow> obj \<Rightarrow> isolate \<Rightarrow> obj option \<times> isolate" where
  "CaptureAndSetDetailedStackTrace rt error_object iso0 =
     (case CaptureDetailedStackTrace rt error_object iso0 of
        (None, iso') \<Rightarrow> (None, iso')
      | (Some stack_trace, iso') \<Rightarrow>
          (SetOwnPropertyIgnoreAttributes error_object detailed_stack_trace_symbol
             stack_trace NONE, iso'))"

definition CaptureAndSetSimpleStackTrace ::
  "runtime \<Rightarrow> obj \<Rightarrow> FrameSkipMode \<Rightarrow> obj option \<Rightarrow> isolate \<Rightarrow> obj option \<times> isolate" where
  "CaptureAndSetSimpleStackTrace rt error_object mode caller iso0 =
     (case CaptureSimpleStackTrace rt error_object mode caller iso0 of
        (None, iso') \<Rightarrow> (None, iso')
      | (Some stack_trace, iso') \<Rightarrow>
          (SetOwnPropertyIgnoreAttributes error_object stack_trace_symbol stack_trace NONE,
           iso'))"

text \<open>
  The steps of \<^verbatim>\<open>ConstructError\<close>, in the order of the source. Each of the first three is
  left through \<^verbatim>\<open>ASSIGN_RETURN_ON_EXCEPTION\<close> or \<^verbatim>\<open>RETURN_ON_EXCEPTION\<close> when it fails:
  the allocation, the installation of the message, the detailed trace.
\<close>

definition allocate_error ::
  "runtime \<Rightarrow> obj \<Rightarrow> obj \<Rightarrow> isolate \<Rightarrow> obj option \<times> isolate" where
  "allocate_error rt target new_target iso0 =
     (let new_target_recv = (if IsJSReceiver new_target then new_target else target)
      in JSObject_New rt target new_target_recv iso0)"

definition install_message ::
  "runtime \<Rightarrow> obj \<Rightarrow> obj \<Rightarrow> isolate \<Rightarrow> obj option \<times> isolate" where
  "install_message rt err message iso0 =
     (if \<not> IsUndefined message then
        (case Object_ToString rt message iso0 of
           (None, iso') \<Rightarrow> (None, iso')
         | (Some msg_string, iso') \<Rightarrow>
             (SetOwnPropertyIgnoreAttributes err message_string (String msg_string)
                DONT_ENUM_only, iso'))
      else (Some err, iso0))"

definition capture_detailed ::
  "runtime \<Rightarrow> obj \<Rightarrow> bool \<Rightarrow> isolate \<Rightarrow> obj option \<times> isolate" where
  "capture_detailed rt err suppress_detailed_trace iso0 =
     (if \<not> suppress_detailed_trace then CaptureAndSetDetailedStackTrace rt err iso0
      else (Some err, iso0))"

definition before_simple_trace ::
  "runtime \<Rightarrow> obj \<Rightarrow> obj \<Rightarrow> obj \<Rightarrow> bool \<Rightarrow> isolate \<Rightarrow> obj option \<times> isolate" where
  "before_simple_trace rt target new_target message suppress_detailed_trace iso0 =
     (case allocate_error rt target new_target iso0 of
        (None, iso1) \<Rightarrow> (None, iso1)
      | (Some err, iso1) \<Rightarrow>
          (case install_message rt err message iso1 of
             (None, iso2) \<Rightarrow> (None, iso2)
           | (Some err', iso2) \<Rightarrow> capture_detailed rt err' suppress_detailed_trace iso2))"

text \<open>The skip mode and the caller that the simple capture is given.\<close>

definition refined_mode :: "FrameSkipMode \<Rightarrow> obj \<Rightarrow> FrameSkipMode" where
  "refined_mode mode new_target =
     (if mode = SKIP_FIRST \<and> IsJSFunction new_target then SKIP_UNTIL_SEEN else mode)"

definition refined_caller :: "FrameSkipMode \<Rightarrow> obj \<Rightarrow> obj option" where
  "refined_caller mode new_target =
     (if mode = SKIP_FIRST \<and> IsJSFunction new_target then Some new_target else None)"

definition ConstructError ::
  "runtime \<Rightarrow> obj \<Rightarrow> obj \<Rightarrow> obj \<Rightarrow> FrameSkipMode \<Rightarrow> bool \<Rightarrow> isolate \<Rightarrow> obj option \<times> isolate"
  where
  "ConstructError rt target new_target message mode suppress_detailed_trace iso0 =
     (case before_simple_trace rt target new_target message suppress_detailed_trace iso0 of
        (None, iso3) \<Rightarrow> (None, iso3)
      | (Some err, iso3) \<Rightarrow>
          CaptureAndSetSimpleStackTrace rt err (refined_mode mode new_target)
            (refined_caller mode new_target) iso3)"

subsection \<open>The specification's reading of the method-name walk\<close>

text \<open>
  The links of the receiver's prototype chain that are walked: from the receiver up to,
  and without, the first link that is not an object or that needs an access check.
\<close>

fun walked_links :: "obj \<Rightarrow> obj list" where
  "walked_links (JSObject a k ps proto acn) =
     (if acn then [] else JSObject a k ps proto acn # walked_links proto)"
| "walked_links other = []"

text \<open>The own enumerable property names of a link under which the function is bound.\<close>

definition bindings_at :: "obj \<Rightarrow> obj \<Rightarrow> obj list" where
  "bindings_at f link =
     filter (\<lambda>key. IsName key \<and> CheckMethodName link key f OWN_SKIP_INTERCEPTOR)
            (GetOwnEnumPropertyKeys link)"

definition method_bindings :: "obj \<Rightarrow> obj \<Rightarrow> obj list" where
  "method_bindings receiver f = concat (map (bindings_at f) (walked_links receiver))"

text \<open>One match gives its name; no match, or two or more, give \<open>null\<close>.\<close>

fun unique_binding :: "obj list \<Rightarrow> obj" where
  "unique_binding [name] = name"
| "unique_binding other = Null"

fun pending_result :: "obj list \<Rightarrow> obj option" where
  "pending_result [] = None"
| "pending_result (name # names) = Some name"

text \<open>
  The method name as the walk alone decides it: the unique binding, or \<open>null\<close>.
\<close>

definition method_name_by_walk :: "obj \<Rightarrow> obj \<Rightarrow> obj" where
  "method_name_by_walk receiver f = unique_binding (method_bindings receiver f)"

text \<open>
  The first test of \<^verbatim>\<open>GetMethodName\<close>: the declared name of the function, without a
  leading \<open>get\<close> or \<open>set\<close> and a space, is looked up on the prototype chain of the receiver.
\<close>

definition declared_name :: "obj \<Rightarrow> obj" where
  "declared_name f = String (strip_accessor_prefix (string_of (shared_name (kind f))))"

definition bound_under_declared_name :: "obj \<Rightarrow> obj \<Rightarrow> bool" where
  "bound_under_declared_name receiver f =
     (IsString (shared_name (kind f)) \<and>
      CheckMethodName receiver (declared_name f) f PROTOTYPE_CHAIN_SKIP_INTERCEPTOR)"

subsection \<open>The specification's reading of the dispatch\<close>




text \<open>The isolate in which the argument of a message is turned into a string.\<close>

definition report_start :: "isolate \<Rightarrow> isolate" where
  "report_start iso0 = set_external_caught_exception False (clear_pending_exception iso0)"

definition exception_for_listeners :: "isolate \<Rightarrow> obj" where
  "exception_for_listeners iso0 =
     (case pending_exception iso0 of Some e \<Rightarrow> e | None \<Rightarrow> Undefined)"


definition is_listener :: "listener_slot \<Rightarrow> bool" where
  "is_listener slot = (slot \<noteq> Tombstone)"

text \<open>
  The line of the default reporter in the words of the specification: the name of the
  script or \<open><unknown>\<close>, the line of the location counted from \<open>1\<close>, and the text; the text
  alone without a location. The line of an offset is \<^verbatim>\<open>Script::GetLineNumber\<close>, which
  counts from \<open>0\<close>.
\<close>

definition report_line_spec ::
  "callsite_env \<Rightarrow> runtime \<Rightarrow> MessageLocation option \<Rightarrow> string \<Rightarrow> string" where
  "report_line_spec env rt loc str =
     (case loc of
        None \<Rightarrow> str
      | Some l \<Rightarrow>
          (case location_script l of
             None \<Rightarrow> str
           | Some script \<Rightarrow>
               (if IsString (script_name script)
                then String_ToCString rt (string_of (script_name script))
                else ''<unknown>'')
               @ '':''
               @ decimal_of_int (Script_GetLineNumber env script (location_start_pos l) + 1)
               @ '': '' @ str))"

subsection \<open>Example data\<close>

text \<open>
  An environment in which a function's name is the name of its shared function info, every
  offset of a script lies on its first line, and \<^verbatim>\<open>ToObject\<close> is the identity on receivers.
\<close>

definition example_env :: callsite_env where
  "example_env =
     \<lparr>JSFunction_GetName = (\<lambda>f. string_of (shared_name (kind f))),
      GetWasmFunctionNameOrNull = (\<lambda>w i. Null),
      Script_GetLineNumber = (\<lambda>script p. 0),
      Script_GetColumnNumber = (\<lambda>script p. p),
      Object_ToObject = (\<lambda>v. if IsJSReceiver v then Some v else None)\<rparr>"

definition example_script :: obj where
  "example_script = Script (String ''a.js'') Undefined COMPILATION_TYPE_HOST TYPE_NORMAL"

definition example_function :: obj where
  "example_function = JSObject 1 (JS_FUNCTION (String ''foo'') example_script) [] Null False"

text \<open>The object \<^verbatim>\<open>{foo: f, bar: f}\<close> for the function \<^verbatim>\<open>f\<close> declared as \<^verbatim>\<open>foo\<close>.\<close>

definition two_names_receiver :: obj where
  "two_names_receiver =
     JSObject 2 JS_OBJECT
       [(String ''foo'', DataProperty example_function NONE),
        (String ''bar'', DataProperty example_function NONE)] Null False"

text \<open>The frame record of a call of \<open>f\<close> on \<open>receiver\<close> at offset \<open>0\<close>.\<close>

definition call_site_object :: "obj \<Rightarrow> obj \<Rightarrow> obj" where
  "call_site_object f receiver =
     JSObject 3 JS_OBJECT
       [(call_site_function_symbol, DataProperty f NONE),
        (call_site_receiver_symbol, DataProperty receiver NONE),
        (call_site_position_symbol, DataProperty (Smi 0) NONE)] Null False"

definition two_names_site :: CallSite where
  "two_names_site =
     \<lparr>site_receiver = Some two_names_receiver, site_fun = Some example_function,
      site_pos = 0, site_wasm_obj = None, site_wasm_func_index = - 1\<rparr>"

definition empty_object :: obj where
  "empty_object = JSObject 4 JS_OBJECT [] Null False"

text \<open>The frame of a call \<^verbatim>\<open>receiver.greet()\<close> of an anonymous function.\<close>

definition anonymous_function :: obj where
  "anonymous_function = JSObject 6 (JS_FUNCTION (String []) example_script) [] Null False"

definition greeter :: obj where
  "greeter =
     JSObject 5 JS_OBJECT [(String ''greet'', DataProperty anonymous_function NONE)] Null False"

definition greet_site :: CallSite where
  "greet_site =
     \<lparr>site_receiver = Some greeter, site_fun = Some anonymous_function,
      site_pos = 0, site_wasm_obj = None, site_wasm_func_index = - 1\<rparr>"

definition null_receiver_site :: CallSite where
  "null_receiver_site =
     \<lparr>site_receiver = Some Null, site_fun = Some anonymous_function,
      site_pos = 0, site_wasm_obj = None, site_wasm_func_index = - 1\<rparr>"

text \<open>
  A runtime with two templates. Its restricted conversion renders a small integer in
  decimal, returns an object that is no string for \<open>null\<close>, and fails on everything else;
  \<^verbatim>\<open>ToString\<close> succeeds on strings and small integers and throws its argument otherwise.
  The callback at address \<open>1\<close> fails: it leaves its second argument as a scheduled
  exception; every other callback returns normally. Error objects are allocated at
  address \<open>100\<close> with the \<^verbatim>\<open>prototype\<close> of the new target, and the stack captures return
  numbers that tell the skip mode and the caller.
\<close>

definition example_runtime :: runtime where
  "example_runtime =
     \<lparr>MESSAGE_TEMPLATES = [''Uncaught %'', ''% is not defined''],
      String_kMaxLength = 268435440,
      TryCall_no_side_effects_to_string =
        (\<lambda>v s. case v of Smi n \<Rightarrow> (Some (String (decimal_of_int n)), s)
                | Null \<Rightarrow> (Some (Smi 0), s)
                | other \<Rightarrow> (None, s)),
      Object_ToString =
        (\<lambda>v s. case v of String x \<Rightarrow> (Some x, s)
                | Smi n \<Rightarrow> (Some (decimal_of_int n), s)
                | other \<Rightarrow> (None, s\<lparr>pending_exception := Some v\<rparr>)),
      String_ToCString = (\<lambda>s. s),
      callback_at = (\<lambda>a m d s. if a = 1 then s\<lparr>scheduled_exception := Some d\<rparr> else s),
      TryCatch_enter = (\<lambda>s. s),
      TryCatch_leave = (\<lambda>verbose capture s. s),
      illegal_access = String ''illegal access'',
      invalid_string_length_error = String ''Invalid string length'',
      JSObject_New =
        (\<lambda>target new_target s.
           (Some (JSObject 100 JS_ERROR [] (GetDataProperty new_target (String ''prototype''))
                    False), s)),
      CaptureDetailedStackTrace = (\<lambda>e s. (Some (Smi 0), s)),
      CaptureSimpleStackTrace =
        (\<lambda>e mode caller s.
           (Some (case mode of SKIP_FIRST \<Rightarrow> Smi 1
                  | SKIP_UNTIL_SEEN \<Rightarrow> (case caller of Some c \<Rightarrow> c | None \<Rightarrow> Smi 2)
                  | SKIP_NONE \<Rightarrow> Smi 3), s))\<rparr>"

definition quiet_isolate :: isolate where
  "quiet_isolate =
     \<lparr>pending_exception = None, scheduled_exception = None,
      external_caught_exception = False, message_listeners = []\<rparr>"

text \<open>
  A message \<^verbatim>\<open>Uncaught boom\<close> at offset \<open>7\<close> of the script \<^verbatim>\<open>a.js\<close>, whose text is one
  line; two messages whose argument is an object that cannot be converted; a registry
  whose first listener fails and whose second slot was removed.
\<close>

definition example_location :: MessageLocation where
  "example_location =
     \<lparr>location_script = Some example_script, location_start_pos = 7, location_end_pos = 12,
      location_function = None\<rparr>"

definition example_message :: JSMessageObject where
  "example_message =
     \<lparr>message_type = 0, message_argument = String ''boom'', message_start_position = 7,
      message_end_position = 12, message_script = example_script,
      message_stack_frames = Undefined\<rparr>"

definition object_message :: JSMessageObject where
  "object_message = example_message\<lparr>message_argument := JSObject 7 JS_OBJECT [] Null False\<rparr>"

definition error_message :: JSMessageObject where
  "error_message = example_message\<lparr>message_argument := JSObject 8 JS_ERROR [] Null False\<rparr>"


text \<open>
  The constructor \<^verbatim>\<open>Error\<close> and a subclass constructor, each with a \<^verbatim>\<open>prototype\<close> object;
  an object whose conversion to a string throws.
\<close>

definition error_function :: obj where
  "error_function =
     JSObject 10 (JS_FUNCTION (String ''Error'') Undefined)
       [(String ''prototype'', DataProperty (JSObject 11 JS_OBJECT [] Null False) NONE)]
       Null False"

definition subclass_function :: obj where
  "subclass_function =
     JSObject 12 (JS_FUNCTION (String ''MyError'') example_script)
       [(String ''prototype'', DataProperty (JSObject 13 JS_OBJECT [] Null False) NONE)]
       Null False"

definition unprintable :: obj where
  "unprintable = JSObject 7 JS_OBJECT [] Null False"

text \<open>
  The error objects that the example runtime builds: for \<^verbatim>\<open>new MyError(42)\<close> with the
  detailed trace, and for \<^verbatim>\<open>Error()\<close> without a message and without the detailed trace.
\<close>

definition subclass_error :: obj where
  "subclass_error =
     JSObject 100 JS_ERROR
       [(message_string, DataProperty (String ''42'') DONT_ENUM_only),
        (detailed_stack_trace_symbol, DataProperty (Smi 0) NONE),
        (stack_trace_symbol, DataProperty subclass_function NONE)]
       (JSObject 13 JS_OBJECT [] Null False) False"

definition plain_error :: obj where
  "plain_error =
     JSObject 100 JS_ERROR [(stack_trace_symbol, DataProperty (Smi 1) NONE)]
       (JSObject 11 JS_OBJECT [] Null False) False"

text \<open>
  More example data: a registry whose only listener was removed; a runtime whose
  \<^verbatim>\<open>ToString\<close> fails and leaves its argument as a scheduled exception; a runtime whose
  callback at address \<open>3\<close> removes the listeners with the callback at address \<open>2\<close> from
  the registry, as \<^verbatim>\<open>RemoveMessageListeners\<close> does, and a registry that holds both.
\<close>

definition removed_only_isolate :: isolate where
  "removed_only_isolate = quiet_isolate\<lparr>message_listeners := [Tombstone]\<rparr>"





section \<open>Properties\<close>

subsection \<open>MessageTemplate\<close>

lemma TemplateString_valid:
  "0 \<le> i \<Longrightarrow> i < kLastMessage templates \<Longrightarrow> TemplateString templates i = Some (templates ! nat i)"
  by (simp add: TemplateString_def)

lemma TemplateString_invalid:
  "\<not> (0 \<le> i \<and> i < kLastMessage templates) \<Longrightarrow> TemplateString templates i = None"
  by (simp add: TemplateString_def)

lemma format_loop_not_illegal:
  "format_loop t i args b \<noteq> Inl IllegalOperation"
  by (induction t i args b rule: format_loop.induct) auto

lemma Finish_not_illegal: "Finish k b \<noteq> Inl IllegalOperation"
  by (simp add: Finish_def)


lemma tokenize_placeholder:
  "\<not> (cs \<noteq> [] \<and> hd cs = CHR ''%'') \<Longrightarrow> tokenize (CHR ''%'' # cs) = Placeholder # tokenize cs"
  by (cases cs) auto

lemma tokenize_literal: "c \<noteq> CHR ''%'' \<Longrightarrow> tokenize (c # cs) = Literal c # tokenize cs"
  by (cases cs) auto

lemma format_loop_render:
  "count_list (tokenize t) Placeholder + i \<le> length args \<Longrightarrow>
   format_loop t i args b = Inr (b @ render (tokenize t) (drop i args))"
proof (induction t i args b rule: format_loop.induct)
  case (1 i args builder)
  then show ?case by simp
next
  case (2 c cs i args builder)
  show ?case
  proof (cases "c = CHR ''%''")
    case False
    with 2 show ?thesis
      by (simp add: tokenize_literal AppendCharacter_def)
  next
    case True
    show ?thesis
    proof (cases "cs \<noteq> [] \<and> hd cs = CHR ''%''")
      case pp: True
      then obtain cs' where cs: "cs = CHR ''%'' # cs'" by (cases cs) auto
      with 2 True show ?thesis
        by (simp add: AppendCharacter_def)
    next
      case np: False
      have tk: "tokenize (c # cs) = Placeholder # tokenize cs"
        using True np tokenize_placeholder by blast
      with 2(4) have lt: "i < length args" by simp
      have dr: "drop i args = args ! i # drop (Suc i) args"
        using lt by (simp add: Cons_nth_drop_Suc)
      from 2(2)[OF True np lt] 2(4) tk
      have "format_loop cs (i + 1) args (AppendString builder (args ! i)) =
            Inr (AppendString builder (args ! i) @ render (tokenize cs) (drop (i + 1) args))"
        by simp
      moreover have "format_loop (c # cs) i args builder =
            format_loop cs (i + 1) args (AppendString builder (args ! i))"
        using True np lt by auto
      ultimately show ?thesis
        using tk dr by (simp add: AppendString_def)
    qed
  qed
qed

lemma unparse_tokenize: "unparse (tokenize t) = t"
  by (induction t rule: tokenize.induct) auto

lemma tokenize_Literal: "Literal c \<in> set (tokenize t) \<Longrightarrow> c \<noteq> CHR ''%''"
  by (induction t rule: tokenize.induct) (auto split: if_splits)

lemma format_loop_too_many:
  "i \<le> length args \<Longrightarrow> count_list (tokenize t) Placeholder + i > length args \<Longrightarrow>
   format_loop t i args b = Inl DcheckFailed"
proof (induction t i args b rule: format_loop.induct)
  case (1 i args builder)
  then show ?case by simp
next
  case (2 c cs i args builder)
  show ?case
  proof (cases "c = CHR ''%''")
    case False
    with 2 show ?thesis by (simp add: tokenize_literal)
  next
    case True
    show ?thesis
    proof (cases "cs \<noteq> [] \<and> hd cs = CHR ''%''")
      case pp: True
      then obtain cs' where cs: "cs = CHR ''%'' # cs'" by (cases cs) auto
      with 2 True show ?thesis by simp
    next
      case np: False
      have tk: "tokenize (c # cs) = Placeholder # tokenize cs"
        using True np tokenize_placeholder by blast
      show ?thesis
      proof (cases "i < length args")
        case lt: True
        from 2(2)[OF True np lt] 2(4,5) tk lt
        have "format_loop cs (i + 1) args (AppendString builder (args ! i)) = Inl DcheckFailed"
          by simp
        moreover have "format_loop (c # cs) i args builder =
            format_loop cs (i + 1) args (AppendString builder (args ! i))"
          using True np lt by auto
        ultimately show ?thesis by simp
      next
        case False
        then show ?thesis using True np by auto
      qed
    qed
  qed
qed

lemma FormatMessage_too_many_placeholders:
  assumes "TemplateString templates template_index = Some t" and "placeholders t > 3"
  shows "FormatMessage templates kMaxLength template_index arg0 arg1 arg2 = Inl DcheckFailed"
  using assms format_loop_too_many[of 0 "[arg0, arg1, arg2]" t "[]"]
  by (simp add: FormatMessage_def and_then_def placeholders_def)


text \<open>
  Claim C4. For a registered template id (\<open>0 \<le> id < kLastMessage\<close>) formatting never
  raises the illegal-operation error, which is the configuration error of the
  specification; for any other id the template string is \<^verbatim>\<open>NULL\<close> and formatting fails
  with exactly that error, whatever the arguments are.
\<close>

theorem FormatMessage_ConfigurationError:
  "(0 \<le> template_index \<and> template_index < kLastMessage templates \<longrightarrow>
      FormatMessage templates kMaxLength template_index arg0 arg1 arg2 \<noteq> Inl IllegalOperation) \<and>
   (\<not> (0 \<le> template_index \<and> template_index < kLastMessage templates) \<longrightarrow>
      TemplateString templates template_index = None \<and>
      FormatMessage templates kMaxLength template_index arg0 arg1 arg2 = Inl IllegalOperation)"
  by (auto simp: FormatMessage_def TemplateString_def and_then_def Finish_not_illegal
                 format_loop_not_illegal split: sum.splits)

theorem FormatMessage_ConfigurationError_witness:
  "(0 \<le> (0::int) \<and> (0::int) < kLastMessage [''% is not defined''])
   \<and> FormatMessage [''% is not defined''] 100 0 ''x'' [] [] \<noteq> Inl IllegalOperation
   \<and> \<not> (0 \<le> (1::int) \<and> (1::int) < kLastMessage [''% is not defined''])
   \<and> FormatMessage [''% is not defined''] 100 1 ''x'' [] [] = Inl IllegalOperation"
proof -
  have valid: "0 \<le> (0::int) \<and> (0::int) < kLastMessage [''% is not defined'']"
    by (simp add: kLastMessage_def)
  have invalid: "\<not> (0 \<le> (1::int) \<and> (1::int) < kLastMessage [''% is not defined''])"
    by (simp add: kLastMessage_def)
  from FormatMessage_ConfigurationError
         [of 0 "[''% is not defined'']" 100 "''x''" "[]" "[]"] valid
  have a: "FormatMessage [''% is not defined''] 100 0 ''x'' [] [] \<noteq> Inl IllegalOperation"
    by blast
  from FormatMessage_ConfigurationError
         [of 1 "[''% is not defined'']" 100 "''x''" "[]" "[]"] invalid
  have b: "FormatMessage [''% is not defined''] 100 1 ''x'' [] [] = Inl IllegalOperation"
    by blast
  from valid a invalid b show ?thesis by blast
qed

text \<open>
  Claim C5. Read a template as the specification does (\<open>tokenize\<close>: \<open>%%\<close> is one literal
  percent sign, every other \<open>%\<close> is a placeholder, wherever it stands). When the template
  has at most three placeholders, formatting returns the rendering of that reading
  (\<open>render\<close>): every \<open>%%\<close> gives one \<open>%\<close>, the \<open>k\<close>-th placeholder gives the text of the
  \<open>k\<close>-th argument, once and in the order of the template, and every other character is
  copied. The reading loses nothing of the template (\<open>unparse\<close>). The result must fit the
  length limit of a string.
\<close>

theorem FormatMessage_placeholders:
  assumes "TemplateString templates template_index = Some t"
    and "placeholders t \<le> 3"
    and "length (render (tokenize t) [arg0, arg1, arg2]) \<le> kMaxLength"
  shows "unparse (tokenize t) = t
         \<and> FormatMessage templates kMaxLength template_index arg0 arg1 arg2 =
             Inr (render (tokenize t) [arg0, arg1, arg2])"
  using assms format_loop_render[of t 0 "[arg0, arg1, arg2]" "[]"]
  by (simp add: FormatMessage_def and_then_def Finish_def placeholders_def unparse_tokenize)

theorem FormatMessage_placeholders_witness:
  "TemplateString [''%-%%-%-%''] 0 = Some ''%-%%-%-%''
   \<and> placeholders ''%-%%-%-%'' \<le> 3
   \<and> length (render (tokenize ''%-%%-%-%'') [''X'', ''YY'', ''Z'']) \<le> 100
   \<and> FormatMessage [''%-%%-%-%''] 100 0 ''X'' ''YY'' ''Z'' = Inr ''X-%-YY-Z''"
proof -
  have t: "TemplateString [''%-%%-%-%''] 0 = Some ''%-%%-%-%''"
    by (simp add: TemplateString_def kLastMessage_def)
  have n: "placeholders ''%-%%-%-%'' \<le> 3"
    by (simp add: placeholders_def)
  have r: "render (tokenize ''%-%%-%-%'') [''X'', ''YY'', ''Z''] = ''X-%-YY-Z''"
    by simp
  have l: "length (render (tokenize ''%-%%-%-%'') [''X'', ''YY'', ''Z'']) \<le> 100"
    by (simp add: r)
  from FormatMessage_placeholders[OF t n l]
  have "FormatMessage [''%-%%-%-%''] 100 0 ''X'' ''YY'' ''Z'' =
          Inr (render (tokenize ''%-%%-%-%'') [''X'', ''YY'', ''Z''])" by simp
  with t n l r show ?thesis by simp
qed

subsection \<open>CallSite\<close>

lemma CallSite_new_two_names:
  "CallSite_new (call_site_object example_function two_names_receiver) = Inr two_names_site"
  by (simp add: CallSite_new_def call_site_object_def GetDataProperty_def
      call_site_function_symbol_def call_site_receiver_symbol_def call_site_position_symbol_def
      example_function_def read_position_def CallSite_initial_def two_names_site_def
      two_names_receiver_def Let_def)

lemma two_names_bindings:
  "method_bindings two_names_receiver example_function = [String ''foo'', String ''bar'']"
  by (simp add: method_bindings_def two_names_receiver_def bindings_at_def CheckMethodName_def
      example_function_def NONE_def)

text \<open>
  Claim C3 as stated fails. The function \<^verbatim>\<open>f\<close>, declared as \<^verbatim>\<open>foo\<close>, is bound on the
  receiver \<^verbatim>\<open>{foo: f, bar: f}\<close> under two distinct enumerable names. The walk finds both
  and would answer \<open>null\<close>; \<open>GetMethodName\<close> answers \<^verbatim>\<open>foo\<close>, because the lookup of the
  declared name comes first and succeeds.
\<close>

theorem GetMethodName_two_names_counterexample:
  "CallSite_new (call_site_object example_function two_names_receiver) = Inr two_names_site
   \<and> method_bindings two_names_receiver example_function = [String ''foo'', String ''bar'']
   \<and> method_name_by_walk two_names_receiver example_function = Null
   \<and> GetMethodName example_env two_names_site = Inr (String ''foo'')
   \<and> GetMethodName example_env two_names_site \<noteq>
       Inr (method_name_by_walk two_names_receiver example_function)"
proof -
  have g: "GetMethodName example_env two_names_site = Inr (String ''foo'')"
    by (simp add: GetMethodName_def two_names_site_def IsJavaScript_def and_then_def deref_def
      two_names_receiver_def example_env_def example_function_def strip_accessor_prefix_def
      CheckMethodName_def)
  have w: "method_name_by_walk two_names_receiver example_function = Null"
    by (simp add: method_name_by_walk_def two_names_bindings)
  show ?thesis
    using CallSite_new_two_names two_names_bindings g w by simp
qed

text \<open>
  Claim C2. A frame record with neither the function marker nor the Wasm function index
  gives the site whose three handles are null. On that site six accessors return the
  absent value of their type (\<open>null\<close>, \<open>-1\<close>, \<open>false\<close>); \<open>GetFunctionName\<close>, \<open>IsToplevel\<close>
  and \<open>IsConstructor\<close> dereference a null handle instead, so the claim does not hold of
  the code.
\<close>

theorem CallSite_invalid_accessors:
  assumes "\<not> IsJSFunction (GetDataProperty call_site_obj call_site_function_symbol)"
    and "\<not> IsSmi (GetDataProperty call_site_obj call_site_wasm_func_index_symbol)"
  shows "CallSite_new call_site_obj = Inr CallSite_initial
    \<and> GetFileName CallSite_initial = Inr Null
    \<and> GetFunctionName env CallSite_initial = Inl NullHandleDereference
    \<and> GetMethodName env CallSite_initial = Inr Null
    \<and> GetLineNumber env CallSite_initial = Inr (- 1)
    \<and> GetColumnNumber env CallSite_initial = Inr (- 1)
    \<and> IsNative CallSite_initial = Inr False
    \<and> IsToplevel CallSite_initial = Inl NullHandleDereference
    \<and> IsEval CallSite_initial = Inr False
    \<and> IsConstructor CallSite_initial = Inl NullHandleDereference"
  using assms
  by (simp add: CallSite_new_def CallSite_initial_def GetFileName_def GetFunctionName_def
      GetMethodName_def GetLineNumber_def GetColumnNumber_def IsNative_def IsToplevel_def
      IsEval_def IsConstructor_def IsJavaScript_def IsWasm_def and_then_def deref_def)

theorem CallSite_invalid_accessors_witness:
  "\<not> IsJSFunction (GetDataProperty empty_object call_site_function_symbol)
   \<and> \<not> IsSmi (GetDataProperty empty_object call_site_wasm_func_index_symbol)
   \<and> CallSite_new empty_object = Inr CallSite_initial
   \<and> GetFunctionName example_env CallSite_initial = Inl NullHandleDereference
   \<and> IsToplevel CallSite_initial = Inl NullHandleDereference
   \<and> IsConstructor CallSite_initial = Inl NullHandleDereference"
proof -
  have a: "\<not> IsJSFunction (GetDataProperty empty_object call_site_function_symbol)"
    by (simp add: GetDataProperty_def empty_object_def)
  have b: "\<not> IsSmi (GetDataProperty empty_object call_site_wasm_func_index_symbol)"
    by (simp add: GetDataProperty_def empty_object_def)
  from CallSite_invalid_accessors[OF a b, of example_env] a b show ?thesis by simp
qed

lemma scan_keys_filter:
  "length acc \<le> 1 \<Longrightarrow>
   scan_keys keys link f (pending_result acc) =
     (let ms = acc @ filter (\<lambda>key. IsName key \<and> CheckMethodName link key f OWN_SKIP_INTERCEPTOR) keys
      in if length ms \<le> 1 then Continue (pending_result ms) else Return Null)"
proof (induction keys arbitrary: acc)
  case Nil
  then show ?case by simp
next
  case (Cons key keys)
  show ?case
  proof (cases "IsName key \<and> CheckMethodName link key f OWN_SKIP_INTERCEPTOR")
    case False
    then show ?thesis using Cons by auto
  next
    case True
    show ?thesis
    proof (cases acc)
      case Nil
      have "scan_keys (key # keys) link f (pending_result []) =
            scan_keys keys link f (pending_result [key])"
        using True by simp
      also have "\<dots> = (let ms = [key] @ filter (\<lambda>key. IsName key \<and> CheckMethodName link key f OWN_SKIP_INTERCEPTOR) keys
      in if length ms \<le> 1 then Continue (pending_result ms) else Return Null)"
        by (rule Cons.IH) simp
      finally show ?thesis using True Nil by simp
    next
      case (Cons a as)
      with Cons.prems have "as = []" by simp
      with Cons True show ?thesis by simp
    qed
  qed
qed

lemma unique_binding_long: "length ms > 1 \<Longrightarrow> unique_binding (ms @ rest) = Null"
  by (cases ms; cases "tl ms") auto

lemma finish_walk_pending: "length acc \<le> 1 \<Longrightarrow> finish_walk (pending_result acc) = unique_binding acc"
  by (cases acc; cases "tl acc") (auto simp: finish_walk_def)

lemma walk_prototype_chain_bindings:
  "length acc \<le> 1 \<Longrightarrow>
   walk_prototype_chain link f (pending_result acc) = unique_binding (acc @ method_bindings link f)"
proof (induction link arbitrary: acc rule: walked_links.induct)
  case (1 a k ps proto acn)
  let ?link = "JSObject a k ps proto acn"
  show ?case
  proof (cases acn)
    case True
    then show ?thesis using 1(2) by (simp add: method_bindings_def finish_walk_pending)
  next
    case False
    let ?ms = "acc @ bindings_at f ?link"
    have mb: "method_bindings ?link f = bindings_at f ?link @ method_bindings proto f"
      using False by (simp add: method_bindings_def)
    have sk: "scan_keys (GetOwnEnumPropertyKeys ?link) ?link f (pending_result acc) =
           (if length ?ms \<le> 1 then Continue (pending_result ?ms) else Return Null)"
      using scan_keys_filter[OF 1(2), of "GetOwnEnumPropertyKeys ?link" ?link f]
      by (simp add: bindings_at_def Let_def)
    show ?thesis
    proof (cases "length ?ms \<le> 1")
      case True
      have "walk_prototype_chain ?link f (pending_result acc) =
            walk_prototype_chain proto f (pending_result ?ms)"
        using False sk True by simp
      also have "\<dots> = unique_binding (?ms @ method_bindings proto f)"
        using 1(1)[OF False True] .
      finally show ?thesis by (simp add: mb)
    next
      case long: False
      have "walk_prototype_chain ?link f (pending_result acc) = Null"
        using False sk long by simp
      moreover have "unique_binding (?ms @ method_bindings proto f) = Null"
        using long by (intro unique_binding_long) simp
      ultimately show ?thesis by (simp add: mb)
    qed
  qed
qed (simp_all add: method_bindings_def finish_walk_pending)

lemma walk_from_receiver:
  "walk_prototype_chain receiver f None = method_name_by_walk receiver f"
  using walk_prototype_chain_bindings[of "[]" receiver f]
  by (simp add: method_name_by_walk_def)

text \<open>
  Claim C3, amended. For a JavaScript frame: a \<open>null\<close> or \<open>undefined\<close> receiver gives
  \<open>null\<close> before any lookup. Otherwise, with the receiver converted to an object: when the
  function is bound on the receiver's prototype chain under its declared name, that name
  is returned at once; if not, the names under which the function is bound are
  accumulated over the whole walk (own enumerable names of each walked link), and exactly
  one binding returns its name, none returns \<open>null\<close>, two or more return \<open>null\<close>.
\<close>

theorem GetMethodName_resolution:
  assumes "site_fun cs = Some f" and "site_receiver cs = Some r"
  shows "(IsNull r \<or> IsUndefined r \<longrightarrow> GetMethodName env cs = Inr Null)
    \<and> (\<not> IsNull r \<and> \<not> IsUndefined r \<and> Object_ToObject env r = Some receiver
          \<and> IsJSObject receiver \<longrightarrow>
        GetMethodName env cs =
          Inr (if bound_under_declared_name receiver f then declared_name f
               else unique_binding (method_bindings receiver f)))"
  using assms walk_from_receiver[of receiver f]
  by (auto simp: GetMethodName_def IsJavaScript_def and_then_def deref_def Let_def
      bound_under_declared_name_def declared_name_def method_name_by_walk_def)

theorem GetMethodName_resolution_witness:
  "site_fun greet_site = Some anonymous_function
   \<and> site_receiver greet_site = Some greeter
   \<and> \<not> IsNull greeter \<and> \<not> IsUndefined greeter
   \<and> Object_ToObject example_env greeter = Some greeter \<and> IsJSObject greeter
   \<and> \<not> bound_under_declared_name greeter anonymous_function
   \<and> method_bindings greeter anonymous_function = [String ''greet'']
   \<and> GetMethodName example_env greet_site = Inr (String ''greet'')
   \<and> site_fun null_receiver_site = Some anonymous_function
   \<and> site_receiver null_receiver_site = Some Null
   \<and> IsNull Null
   \<and> GetMethodName example_env null_receiver_site = Inr Null"
proof -
  have f: "site_fun greet_site = Some anonymous_function"
    and r: "site_receiver greet_site = Some greeter"
    by (simp_all add: greet_site_def)
  have o: "\<not> IsNull greeter \<and> \<not> IsUndefined greeter
       \<and> Object_ToObject example_env greeter = Some greeter \<and> IsJSObject greeter"
    by (simp add: greeter_def example_env_def)
  have d: "\<not> bound_under_declared_name greeter anonymous_function"
    by (simp add: bound_under_declared_name_def declared_name_def greeter_def
        anonymous_function_def CheckMethodName_def strip_accessor_prefix_def)
  have b: "method_bindings greeter anonymous_function = [String ''greet'']"
    by (simp add: method_bindings_def bindings_at_def greeter_def anonymous_function_def
        CheckMethodName_def NONE_def)
  from GetMethodName_resolution[OF f r, of example_env greeter] o d b
  have g: "GetMethodName example_env greet_site = Inr (String ''greet'')"
    by simp
  have f': "site_fun null_receiver_site = Some anonymous_function"
    and r': "site_receiver null_receiver_site = Some Null"
    by (simp_all add: null_receiver_site_def)
  from GetMethodName_resolution[OF f' r', of example_env]
  have n: "GetMethodName example_env null_receiver_site = Inr Null"
    by simp
  from f r o d b g f' r' n show ?thesis by simp
qed

subsection \<open>The overload of FormatMessage for one value\<close>

lemma FormatMessage_value_string:
  "IsString arg \<Longrightarrow>
   FormatMessage_value rt template_index arg iso0 =
     (case FormatMessage (MESSAGE_TEMPLATES rt) (String_kMaxLength rt) template_index
             (string_of arg) [] [] of
        Inr formatted \<Rightarrow> Inr (formatted, iso0)
      | Inl e \<Rightarrow> (if e = IllegalOperation \<or> e = InvalidStringLength
                   then Inr (''<error>'', Throw (thrown_value rt e) iso0)
                   else Inl e))"
  by (simp add: FormatMessage_value_def format_with_first_argument_def is_exception_def
      error_literal_def split: sum.splits)

lemma FormatMessage_value_conversion_fails:
  "\<not> IsString arg \<Longrightarrow> fst (TryCall_no_side_effects_to_string rt arg iso0) = None \<Longrightarrow>
   FormatMessage_value rt template_index arg iso0 =
     Inr (''<error>'', snd (TryCall_no_side_effects_to_string rt arg iso0))"
  by (cases "TryCall_no_side_effects_to_string rt arg iso0")
     (simp add: FormatMessage_value_def error_literal_def)

lemma FormatMessage_value_conversion_no_string:
  "\<not> IsString arg \<Longrightarrow> fst (TryCall_no_side_effects_to_string rt arg iso0) = Some result \<Longrightarrow>
   \<not> IsString result \<Longrightarrow>
   FormatMessage_value rt template_index arg iso0 =
     Inr (''<error>'', snd (TryCall_no_side_effects_to_string rt arg iso0))"
  by (cases "TryCall_no_side_effects_to_string rt arg iso0")
     (simp add: FormatMessage_value_def error_literal_def)

lemma FormatMessage_value_conversion_string:
  "\<not> IsString arg \<Longrightarrow> fst (TryCall_no_side_effects_to_string rt arg iso0) = Some result \<Longrightarrow>
   IsString result \<Longrightarrow>
   FormatMessage_value rt template_index arg iso0 =
     FormatMessage_value rt template_index result
       (snd (TryCall_no_side_effects_to_string rt arg iso0))"
  by (cases "TryCall_no_side_effects_to_string rt arg iso0")
     (simp add: FormatMessage_value_def)

text \<open>
  Claim C6. The overload for one value: a string argument is used as it is, as the first
  argument of the template (the other two are empty); any other argument goes through the
  restricted conversion, and when that conversion fails, or returns a value that is not a
  string, the result is the literal \<open><error>\<close>; a string result of the conversion is
  used like a string argument. When the formatting of the template then fails with an
  exception, the result is the literal \<open><error>\<close> too.
\<close>

theorem FormatMessage_value_fallback:
  "(IsString arg \<longrightarrow>
      FormatMessage_value rt template_index arg iso0 =
        (case FormatMessage (MESSAGE_TEMPLATES rt) (String_kMaxLength rt) template_index
                (string_of arg) [] [] of
           Inr formatted \<Rightarrow> Inr (formatted, iso0)
         | Inl e \<Rightarrow> (if e = IllegalOperation \<or> e = InvalidStringLength
                      then Inr (''<error>'', Throw (thrown_value rt e) iso0)
                      else Inl e)))
   \<and> (\<not> IsString arg \<and> fst (TryCall_no_side_effects_to_string rt arg iso0) = None \<longrightarrow>
      FormatMessage_value rt template_index arg iso0 =
        Inr (''<error>'', snd (TryCall_no_side_effects_to_string rt arg iso0)))
   \<and> (\<not> IsString arg \<and> fst (TryCall_no_side_effects_to_string rt arg iso0) = Some result
        \<and> \<not> IsString result \<longrightarrow>
      FormatMessage_value rt template_index arg iso0 =
        Inr (''<error>'', snd (TryCall_no_side_effects_to_string rt arg iso0)))
   \<and> (\<not> IsString arg \<and> fst (TryCall_no_side_effects_to_string rt arg iso0) = Some result
        \<and> IsString result \<longrightarrow>
      FormatMessage_value rt template_index arg iso0 =
        FormatMessage_value rt template_index result
          (snd (TryCall_no_side_effects_to_string rt arg iso0)))"
  using FormatMessage_value_string[of arg rt template_index iso0]
    FormatMessage_value_conversion_fails[of arg rt iso0 template_index]
    FormatMessage_value_conversion_no_string[of arg rt iso0 result template_index]
    FormatMessage_value_conversion_string[of arg rt iso0 result template_index]
  by blast

lemma decimal_42: "decimal_of_int 42 = ''42''"
  by (simp add: decimal_of_int_def decimal_of_nat.simps digit_char_def)

theorem FormatMessage_value_fallback_witness:
  "IsString (String ''x'')
   \<and> FormatMessage_value example_runtime 0 (String ''x'') quiet_isolate =
       Inr (''Uncaught x'', quiet_isolate)
   \<and> FormatMessage_value example_runtime 7 (String ''x'') quiet_isolate =
       Inr (''<error>'', Throw (String ''illegal access'') quiet_isolate)
   \<and> \<not> IsString Undefined
   \<and> fst (TryCall_no_side_effects_to_string example_runtime Undefined quiet_isolate) = None
   \<and> FormatMessage_value example_runtime 0 Undefined quiet_isolate =
       Inr (''<error>'', quiet_isolate)
   \<and> \<not> IsString Null
   \<and> fst (TryCall_no_side_effects_to_string example_runtime Null quiet_isolate) = Some (Smi 0)
   \<and> \<not> IsString (Smi 0)
   \<and> FormatMessage_value example_runtime 0 Null quiet_isolate =
       Inr (''<error>'', quiet_isolate)
   \<and> \<not> IsString (Smi 42)
   \<and> fst (TryCall_no_side_effects_to_string example_runtime (Smi 42) quiet_isolate) =
       Some (String ''42'')
   \<and> FormatMessage_value example_runtime 0 (Smi 42) quiet_isolate =
       Inr (''Uncaught 42'', quiet_isolate)"
proof -
  have f0: "FormatMessage (MESSAGE_TEMPLATES example_runtime) (String_kMaxLength example_runtime)
              0 s [] [] = Inr (''Uncaught '' @ s)" if "length s \<le> 100" for s
    using that
    by (simp add: example_runtime_def FormatMessage_def TemplateString_def kLastMessage_def
        and_then_def Finish_def AppendCharacter_def AppendString_def)
  have f7: "FormatMessage (MESSAGE_TEMPLATES example_runtime) (String_kMaxLength example_runtime)
              7 ''x'' [] [] = Inl IllegalOperation"
    by (simp add: example_runtime_def FormatMessage_def TemplateString_def kLastMessage_def)
  have tv: "thrown_value example_runtime IllegalOperation = String ''illegal access''"
    by (simp add: thrown_value_def example_runtime_def)
  have u: "fst (TryCall_no_side_effects_to_string example_runtime Undefined quiet_isolate) = None"
    and us: "snd (TryCall_no_side_effects_to_string example_runtime Undefined quiet_isolate) = quiet_isolate"
    and n: "fst (TryCall_no_side_effects_to_string example_runtime Null quiet_isolate) = Some (Smi 0)"
    and ns: "snd (TryCall_no_side_effects_to_string example_runtime Null quiet_isolate) = quiet_isolate"
    and m: "fst (TryCall_no_side_effects_to_string example_runtime (Smi 42) quiet_isolate) =
              Some (String ''42'')"
    and ms: "snd (TryCall_no_side_effects_to_string example_runtime (Smi 42) quiet_isolate) = quiet_isolate"
    by (simp_all add: example_runtime_def decimal_42)
  note inst = FormatMessage_value_fallback[where rt = example_runtime and ?iso0.0 = quiet_isolate]
  from inst[of "String ''x''" 0] f0[of "''x''"]
  have a: "FormatMessage_value example_runtime 0 (String ''x'') quiet_isolate =
             Inr (''Uncaught x'', quiet_isolate)" by simp
  from inst[of "String ''x''" 7] f7 tv
  have b: "FormatMessage_value example_runtime 7 (String ''x'') quiet_isolate =
             Inr (''<error>'', Throw (String ''illegal access'') quiet_isolate)" by simp
  from inst[of Undefined 0] u us
  have c: "FormatMessage_value example_runtime 0 Undefined quiet_isolate =
             Inr (''<error>'', quiet_isolate)" by simp
  from inst[of Null 0 "Smi 0"] n ns
  have d: "FormatMessage_value example_runtime 0 Null quiet_isolate =
             Inr (''<error>'', quiet_isolate)" by simp
  from inst[of "Smi 42" 0 "String ''42''"] m ms
  have "FormatMessage_value example_runtime 0 (Smi 42) quiet_isolate =
          FormatMessage_value example_runtime 0 (String ''42'') quiet_isolate" by simp
  also from inst[of "String ''42''" 0] f0[of "''42''"]
  have "\<dots> = Inr (''Uncaught 42'', quiet_isolate)" by simp
  finally have e: "FormatMessage_value example_runtime 0 (Smi 42) quiet_isolate =
          Inr (''Uncaught 42'', quiet_isolate)" .
  from a b c d e u n m show ?thesis by simp
qed

subsection \<open>MessageHandler\<close>

lemma clear_if_scheduled:
  "(if has_scheduled_exception s then clear_scheduled_exception s else s) =
   s\<lparr>scheduled_exception := None\<rparr>"
  by (cases s) (simp add: has_scheduled_exception_def clear_scheduled_exception_def)






lemma ReportMessage_with_listeners:
  assumes "stringify_argument rt message (report_start iso0) = (message', iso2)"
    and "message_listeners iso2 \<noteq> []"
  shows "ReportMessage rt loc message iso0 =
     (message',
      case dispatch_to_listeners rt message' (exception_for_listeners iso0)
             [0..<length (message_listeners iso2)] iso2 of
        Inl e \<Rightarrow> Inl e
      | Inr (events, iso4) \<Rightarrow>
          Inr (events, ExceptionScope_leave (pending_exception iso0) iso4))"
  using assms
  by (simp add: ReportMessage_def report_start_def exception_for_listeners_def Let_def)

lemma ReportMessage_without_listeners:
  assumes "stringify_argument rt message (report_start iso0) = (message', iso2)"
    and "message_listeners iso2 = []"
  shows "ReportMessage rt loc message iso0 =
     (message',
      case DefaultMessageReport rt loc message' iso2 of
        Inl e \<Rightarrow> Inl e
      | Inr (events, iso3) \<Rightarrow>
          Inr (events, iso3\<lparr>scheduled_exception := None,
                            pending_exception := pending_exception iso0\<rparr>))"
  using assms
  by (simp add: ReportMessage_def report_start_def Let_def clear_if_scheduled
      ExceptionScope_leave_def split: sum.splits)




lemma IsJSError_IsJSObject: "IsJSError v \<Longrightarrow> IsJSObject v"
  by (cases v rule: IsJSError.cases) simp_all

lemma fst_ReportMessage:
  "fst (ReportMessage rt loc message iso0) =
   fst (stringify_argument rt message (report_start iso0))"
  by (cases "stringify_argument rt message (report_start iso0)")
     (simp add: ReportMessage_def report_start_def Let_def)

text \<open>
  Claim C10. Whatever the run of \<open>ReportMessage\<close> does afterwards, it leaves the
  message with its argument overwritten: when the argument is an error object and the
  restricted conversion fails, and when it is another object and \<^verbatim>\<open>ToString\<close> fails, the
  argument is the literal \<open>exception\<close>, which is not the literal \<open><error>\<close> of the
  formatter; when the conversion succeeds, the argument is its result; a message whose
  argument is no object is left as it is.
\<close>

theorem ReportMessage_stringification_fallback:
  "(IsJSError (message_argument message)
      \<and> fst (TryCall_no_side_effects_to_string rt (message_argument message)
                (report_start iso0)) = None \<longrightarrow>
    fst (ReportMessage rt loc message iso0) =
      message\<lparr>message_argument := String ''exception''\<rparr>)
   \<and> (IsJSObject (message_argument message) \<and> \<not> IsJSError (message_argument message)
      \<and> fst (Object_ToString rt (message_argument message)
                (TryCatch_enter rt (report_start iso0))) = None \<longrightarrow>
    fst (ReportMessage rt loc message iso0) =
      message\<lparr>message_argument := String ''exception''\<rparr>)
   \<and> (IsJSError (message_argument message)
      \<and> fst (TryCall_no_side_effects_to_string rt (message_argument message)
                (report_start iso0)) = Some v \<longrightarrow>
    fst (ReportMessage rt loc message iso0) = message\<lparr>message_argument := v\<rparr>)
   \<and> (IsJSObject (message_argument message) \<and> \<not> IsJSError (message_argument message)
      \<and> fst (Object_ToString rt (message_argument message)
                (TryCatch_enter rt (report_start iso0))) = Some str \<longrightarrow>
    fst (ReportMessage rt loc message iso0) = message\<lparr>message_argument := String str\<rparr>)
   \<and> (\<not> IsJSObject (message_argument message) \<longrightarrow>
    fst (ReportMessage rt loc message iso0) = message)
   \<and> exception_literal = ''exception''
   \<and> exception_literal \<noteq> error_literal"
proof -
  let ?arg = "message_argument message"
  let ?s = "report_start iso0"
  have e: "IsJSError ?arg \<Longrightarrow>
      fst (stringify_argument rt message ?s) =
        message\<lparr>message_argument :=
          (case fst (TryCall_no_side_effects_to_string rt ?arg ?s) of
             Some v \<Rightarrow> v | None \<Rightarrow> String ''exception'')\<rparr>"
    using IsJSError_IsJSObject[of ?arg]
    by (auto simp: stringify_argument_def exception_literal_def Let_def
        split: prod.splits option.splits)
  have o: "IsJSObject ?arg \<Longrightarrow> \<not> IsJSError ?arg \<Longrightarrow>
      fst (stringify_argument rt message ?s) =
        message\<lparr>message_argument :=
          (case fst (Object_ToString rt ?arg (TryCatch_enter rt ?s)) of
             Some str \<Rightarrow> String str | None \<Rightarrow> String ''exception'')\<rparr>"
    by (auto simp: stringify_argument_def exception_literal_def Let_def
        split: prod.splits option.splits)
  have n: "\<not> IsJSObject ?arg \<Longrightarrow> fst (stringify_argument rt message ?s) = message"
    by (simp add: stringify_argument_def)
  show ?thesis
    using e o n
    by (simp add: fst_ReportMessage exception_literal_def error_literal_def)
qed

lemma format_loop_errors:
  "format_loop t i args b = Inl e \<Longrightarrow> e = DcheckFailed"
  by (induction t i args b rule: format_loop.induct) (auto split: if_splits)

lemma FormatMessage_no_abort:
  assumes "\<forall>t \<in> set templates. placeholders t \<le> 3"
  shows "FormatMessage templates k i a0 a1 a2 \<noteq> Inl DcheckFailed"
proof (cases "TemplateString templates i")
  case None
  then show ?thesis by (simp add: FormatMessage_def)
next
  case (Some t)
  then have "t \<in> set templates"
    by (auto simp: TemplateString_def kLastMessage_def split: if_splits)
  with assms have "placeholders t \<le> 3" by blast
  then have "format_loop t 0 [a0, a1, a2] [] = Inr ([] @ render (tokenize t) (drop 0 [a0, a1, a2]))"
    by (intro format_loop_render) (simp add: placeholders_def)
  with Some show ?thesis
    by (simp add: FormatMessage_def and_then_def Finish_def)
qed

lemma GetMessage_returns:
  assumes "\<forall>t \<in> set (MESSAGE_TEMPLATES rt). placeholders t \<le> 3"
  shows "\<exists>str s'. GetMessage rt m s = Inr (str, s')"
proof -
  have f: "\<exists>str s'. format_with_first_argument rt i a s0 = Inr (str, s')" for i a s0
  proof (cases "FormatMessage (MESSAGE_TEMPLATES rt) (String_kMaxLength rt) i a [] []")
    case (Inl e)
    have "e \<noteq> DcheckFailed"
      using FormatMessage_no_abort[OF assms, of "String_kMaxLength rt" i a "[]" "[]"] Inl by auto
    moreover have "e \<noteq> CheckFailed \<and> e \<noteq> NullHandleDereference"
      using Inl
      by (auto simp: FormatMessage_def and_then_def Finish_def
          split: option.splits sum.splits if_splits dest: format_loop_errors)
    ultimately have "is_exception e" by (cases e) (simp_all add: is_exception_def)
    with Inl show ?thesis by (simp add: format_with_first_argument_def)
  next
    case (Inr r)
    then show ?thesis by (simp add: format_with_first_argument_def)
  qed
  show ?thesis
    using f
    by (auto simp: GetMessage_def FormatMessage_value_def split: prod.splits option.splits)
qed

text \<open>
  Claim C1, amended. Let the registry be empty, that is without any slot, when
  \<open>ReportMessage\<close> reads it. Then no listener is called and the default reporter runs
  once. When it has the text of the message, it writes exactly one line: without a
  location the text and a newline; with a location the name of the script (or
  \<open><unknown>\<close> when the name is no string), a colon, the start offset of the location in
  decimal, a colon and a space, the text, and a newline. The number is the offset
  \<^verbatim>\<open>start_pos\<close> of the location, not a line number. The run is ended without a line when
  the formatter fails its check, and when the script handle of the location is null.
\<close>

theorem ReportMessage_default_reporter:
  assumes "message_listeners (snd (stringify_argument rt message (report_start iso0))) = []"
  shows
    "ReportMessage rt loc message iso0 =
       (let (message', iso2) = stringify_argument rt message (report_start iso0)
        in (message',
            case GetMessage rt message' iso2 of
              Inl e \<Rightarrow> Inl e
            | Inr (str, iso3) \<Rightarrow>
                (case loc of
                   None \<Rightarrow>
                     Inr ([Printed (String_ToCString rt str @ [CHR 0x0A])],
                          iso3\<lparr>scheduled_exception := None,
                               pending_exception := pending_exception iso0\<rparr>)
                 | Some l \<Rightarrow>
                     (case location_script l of
                        None \<Rightarrow> Inl NullHandleDereference
                      | Some script \<Rightarrow>
                          Inr ([Printed ((if IsString (script_name script)
                                          then String_ToCString rt (string_of (script_name script))
                                          else ''<unknown>'')
                                         @ '':'' @ decimal_of_int (location_start_pos l)
                                         @ '': '' @ String_ToCString rt str @ [CHR 0x0A])],
                               iso3\<lparr>scheduled_exception := None,
                                    pending_exception := pending_exception iso0\<rparr>)))))"
proof -
  obtain message' iso2 where
    st: "stringify_argument rt message (report_start iso0) = (message', iso2)"
    by (cases "stringify_argument rt message (report_start iso0)")
  with assms have none: "message_listeners iso2 = []" by simp
  show ?thesis
    unfolding ReportMessage_without_listeners[OF st none] st Let_def prod.case
    by (simp add: DefaultMessageReport_def GetLocalizedMessage_def Let_def
        split: sum.splits option.splits prod.splits)
qed

lemma report_start_quiet: "report_start quiet_isolate = quiet_isolate"
  by (simp add: report_start_def quiet_isolate_def set_external_caught_exception_def
      clear_pending_exception_def)

lemma stringify_example:
  "stringify_argument example_runtime example_message iso1 = (example_message, iso1)"
  by (simp add: stringify_argument_def example_message_def)

lemma GetMessage_example:
  "GetMessage example_runtime example_message iso1 = Inr (''Uncaught boom'', iso1)"
  by (simp add: GetMessage_def example_message_def FormatMessage_value_def
      format_with_first_argument_def example_runtime_def FormatMessage_def TemplateString_def
      kLastMessage_def and_then_def Finish_def AppendCharacter_def AppendString_def)

lemma decimal_7: "decimal_of_int 7 = ''7''" and decimal_1: "decimal_of_int 1 = ''1''"
  by (simp_all add: decimal_of_int_def decimal_of_nat.simps digit_char_def)

lemma quiet_returned:
  "quiet_isolate\<lparr>scheduled_exception := None,
                  pending_exception := pending_exception quiet_isolate\<rparr> = quiet_isolate"
  by (simp add: quiet_isolate_def)

lemma ToCString_example: "String_ToCString example_runtime = (\<lambda>s. s)"
  by (simp add: example_runtime_def)

theorem ReportMessage_default_reporter_witness:
  "message_listeners
     (snd (stringify_argument example_runtime example_message (report_start quiet_isolate))) = []
   \<and> ReportMessage example_runtime None example_message quiet_isolate =
       (example_message, Inr ([Printed (''Uncaught boom'' @ [CHR 0x0A])], quiet_isolate))
   \<and> ReportMessage example_runtime (Some example_location) example_message quiet_isolate =
       (example_message,
        Inr ([Printed (''a.js:7: Uncaught boom'' @ [CHR 0x0A])], quiet_isolate))"
proof -
  have none: "message_listeners
     (snd (stringify_argument example_runtime example_message (report_start quiet_isolate))) = []"
    by (simp add: stringify_example report_start_quiet, simp add: quiet_isolate_def)
  have a: "ReportMessage example_runtime None example_message quiet_isolate =
       (example_message, Inr ([Printed (''Uncaught boom'' @ [CHR 0x0A])], quiet_isolate))"
    unfolding ReportMessage_default_reporter[OF none] stringify_example Let_def prod.case
      report_start_quiet GetMessage_example
    by (simp add: ToCString_example quiet_returned)
  have b: "ReportMessage example_runtime (Some example_location) example_message quiet_isolate =
       (example_message,
        Inr ([Printed (''a.js:7: Uncaught boom'' @ [CHR 0x0A])], quiet_isolate))"
    unfolding ReportMessage_default_reporter[OF none] stringify_example Let_def prod.case
      report_start_quiet GetMessage_example
    by (simp add: ToCString_example quiet_returned example_location_def example_script_def
        decimal_7)
  from none a b show ?thesis by blast
qed

lemma ReportMessage_located_example:
  "ReportMessage example_runtime (Some example_location) example_message quiet_isolate =
     (example_message, Inr ([Printed (''a.js:7: Uncaught boom'' @ [CHR 0x0A])], quiet_isolate))"
proof -
  have none: "message_listeners quiet_isolate = []"
    by (simp add: quiet_isolate_def)
  have d: "DefaultMessageReport example_runtime (Some example_location) example_message
             quiet_isolate =
           Inr ([Printed (''a.js:7: Uncaught boom'' @ [CHR 0x0A])], quiet_isolate)"
    by (simp add: DefaultMessageReport_def GetLocalizedMessage_def GetMessage_example
        ToCString_example example_location_def example_script_def decimal_7)
  have st: "stringify_argument example_runtime example_message (report_start quiet_isolate) =
      (example_message, quiet_isolate)"
    by (simp add: stringify_example report_start_quiet)
  show ?thesis
    unfolding ReportMessage_without_listeners[OF st none] d
    by (simp add: quiet_returned)
qed

lemma report_start_removed_only: "report_start removed_only_isolate = removed_only_isolate"
  by (simp add: report_start_def removed_only_isolate_def quiet_isolate_def
      set_external_caught_exception_def clear_pending_exception_def)

lemma removed_only_registry: "message_listeners removed_only_isolate = [Tombstone]"
  by (simp add: removed_only_isolate_def)

lemma dispatch_removed_only:
  "dispatch_to_listeners rt m ex [0..<length (message_listeners removed_only_isolate)]
     removed_only_isolate = Inr ([], removed_only_isolate)"
  by (simp add: removed_only_registry NeanderArray_get_def)

lemma ReportMessage_removed_only_example:
  "ReportMessage example_runtime (Some example_location) example_message removed_only_isolate =
     (example_message, Inr ([], removed_only_isolate))"
proof -
  have st: "stringify_argument example_runtime example_message
              (report_start removed_only_isolate) = (example_message, removed_only_isolate)"
    by (simp add: stringify_example report_start_removed_only)
  have ne: "message_listeners removed_only_isolate \<noteq> []"
    by (simp add: removed_only_registry)
  show ?thesis
    unfolding ReportMessage_with_listeners[OF st ne] dispatch_removed_only
    by (simp add: ExceptionScope_leave_def removed_only_isolate_def quiet_isolate_def)
qed

lemma ReportMessage_null_script_example:
  "ReportMessage example_runtime (Some MessageLocation_default) example_message quiet_isolate =
     (example_message, Inl NullHandleDereference)"
proof -
  have none: "message_listeners quiet_isolate = []"
    by (simp add: quiet_isolate_def)
  have st: "stringify_argument example_runtime example_message (report_start quiet_isolate) =
      (example_message, quiet_isolate)"
    by (simp add: stringify_example report_start_quiet)
  have d: "DefaultMessageReport example_runtime (Some MessageLocation_default) example_message
             quiet_isolate = Inl NullHandleDereference"
    by (simp add: DefaultMessageReport_def GetLocalizedMessage_def GetMessage_example
        MessageLocation_default_def)
  show ?thesis
    unfolding ReportMessage_without_listeners[OF st none] d by simp
qed

text \<open>
  Claim C1 as stated fails. For the message at offset \<open>7\<close> of the one-line script
  \<^verbatim>\<open>a.js\<close> the claim's line is \<^verbatim>\<open>a.js:1: Uncaught boom\<close>, and the default reporter
  writes \<^verbatim>\<open>a.js:7: Uncaught boom\<close>. With a registry whose only listener was removed no
  listener is registered, and nothing is written at all. With a location whose script
  handle is null the run is ended before a line is written.
\<close>

theorem ReportMessage_prints_offset_counterexample:
  "map_sum id fst
     (snd (ReportMessage example_runtime (Some example_location) example_message
             quiet_isolate)) =
     Inr [Printed (''a.js:7: Uncaught boom'' @ [CHR 0x0A])]
   \<and> report_line_spec example_env example_runtime (Some example_location) ''Uncaught boom'' =
       ''a.js:1: Uncaught boom''
   \<and> map_sum id fst
       (snd (ReportMessage example_runtime (Some example_location) example_message
               quiet_isolate)) \<noteq>
       Inr [Printed (report_line_spec example_env example_runtime (Some example_location)
                       ''Uncaught boom'')]
   \<and> map_sum id fst
       (snd (ReportMessage example_runtime (Some example_location) example_message
               quiet_isolate)) \<noteq>
       Inr [Printed (report_line_spec example_env example_runtime (Some example_location)
                       ''Uncaught boom'' @ [CHR 0x0A])]
   \<and> filter is_listener (message_listeners removed_only_isolate) = []
   \<and> ReportMessage example_runtime (Some example_location) example_message
         removed_only_isolate = (example_message, Inr ([], removed_only_isolate))
   \<and> ReportMessage example_runtime (Some MessageLocation_default) example_message
         quiet_isolate = (example_message, Inl NullHandleDereference)"
proof -
  have spec: "report_line_spec example_env example_runtime (Some example_location)
                ''Uncaught boom'' = ''a.js:1: Uncaught boom''"
    by (simp add: report_line_spec_def example_location_def example_script_def example_env_def
        example_runtime_def decimal_1)
  have reg: "filter is_listener (message_listeners removed_only_isolate) = []"
    by (simp add: removed_only_registry is_listener_def)
  show ?thesis
    by (simp add: ReportMessage_located_example spec reg ReportMessage_removed_only_example
        ReportMessage_null_script_example)
qed









lemma GetMessage_exception_example:
  "message_argument m = String ''exception'' \<Longrightarrow> message_type m = 0 \<Longrightarrow>
   GetMessage example_runtime m iso1 = Inr (''Uncaught exception'', iso1)"
  by (simp add: GetMessage_def FormatMessage_value_def
      format_with_first_argument_def example_runtime_def FormatMessage_def TemplateString_def
      kLastMessage_def and_then_def Finish_def AppendCharacter_def AppendString_def)

lemma ReportMessage_error_example:
  "ReportMessage example_runtime None error_message quiet_isolate =
     (error_message\<lparr>message_argument := String ''exception''\<rparr>,
      Inr ([Printed (''Uncaught exception'' @ [CHR 0x0A])], quiet_isolate))"
proof -
  let ?m = "error_message\<lparr>message_argument := String ''exception''\<rparr>"
  have st: "stringify_argument example_runtime error_message (report_start quiet_isolate) =
              (?m, quiet_isolate)"
    by (simp add: report_start_quiet stringify_argument_def error_message_def
        example_runtime_def exception_literal_def)
  have none: "message_listeners quiet_isolate = []"
    by (simp add: quiet_isolate_def)
  have g: "GetMessage example_runtime ?m quiet_isolate =
             Inr (''Uncaught exception'', quiet_isolate)"
    by (rule GetMessage_exception_example) (simp_all add: error_message_def example_message_def)
  have d: "DefaultMessageReport example_runtime None ?m quiet_isolate =
             Inr ([Printed (''Uncaught exception'' @ [CHR 0x0A])], quiet_isolate)"
    by (simp add: DefaultMessageReport_def GetLocalizedMessage_def g ToCString_example)
  show ?thesis
    unfolding ReportMessage_without_listeners[OF st none] d
    by (simp add: quiet_returned)
qed

lemma ReportMessage_object_example:
  "ReportMessage example_runtime None object_message quiet_isolate =
     (object_message\<lparr>message_argument := String ''exception''\<rparr>,
      Inr ([Printed (''Uncaught exception'' @ [CHR 0x0A])], quiet_isolate))"
proof -
  let ?m = "object_message\<lparr>message_argument := String ''exception''\<rparr>"
  let ?s = "quiet_isolate\<lparr>pending_exception := Some (JSObject 7 JS_OBJECT [] Null False)\<rparr>"
  have st: "stringify_argument example_runtime object_message (report_start quiet_isolate) =
              (?m, ?s)"
    by (simp add: report_start_quiet stringify_argument_def object_message_def
        example_runtime_def exception_literal_def)
  have none: "message_listeners ?s = []"
    by (simp add: quiet_isolate_def)
  have g: "GetMessage example_runtime ?m ?s = Inr (''Uncaught exception'', ?s)"
    by (rule GetMessage_exception_example) (simp_all add: object_message_def example_message_def)
  have d: "DefaultMessageReport example_runtime None ?m ?s =
             Inr ([Printed (''Uncaught exception'' @ [CHR 0x0A])], ?s)"
    by (simp add: DefaultMessageReport_def GetLocalizedMessage_def g ToCString_example)
  show ?thesis
    unfolding ReportMessage_without_listeners[OF st none] d
    by (simp add: quiet_isolate_def)
qed

theorem ReportMessage_stringification_fallback_witness:
  "IsJSError (message_argument error_message)
   \<and> fst (TryCall_no_side_effects_to_string example_runtime (message_argument error_message)
            (report_start quiet_isolate)) = None
   \<and> fst (ReportMessage example_runtime None error_message quiet_isolate) =
       error_message\<lparr>message_argument := String ''exception''\<rparr>
   \<and> snd (ReportMessage example_runtime None error_message quiet_isolate) =
       Inr ([Printed (''Uncaught exception'' @ [CHR 0x0A])], quiet_isolate)
   \<and> IsJSObject (message_argument object_message)
   \<and> \<not> IsJSError (message_argument object_message)
   \<and> fst (Object_ToString example_runtime (message_argument object_message)
            (TryCatch_enter example_runtime (report_start quiet_isolate))) = None
   \<and> fst (ReportMessage example_runtime None object_message quiet_isolate) =
       object_message\<lparr>message_argument := String ''exception''\<rparr>
   \<and> snd (ReportMessage example_runtime None object_message quiet_isolate) =
       Inr ([Printed (''Uncaught exception'' @ [CHR 0x0A])], quiet_isolate)
   \<and> \<not> IsJSObject (message_argument example_message)
   \<and> fst (ReportMessage example_runtime None example_message quiet_isolate) = example_message"
proof -
  note inst = ReportMessage_stringification_fallback[where rt = example_runtime
      and ?iso0.0 = quiet_isolate and loc = None]
  have e1: "IsJSError (message_argument error_message)"
    and e2: "fst (TryCall_no_side_effects_to_string example_runtime
                   (message_argument error_message) (report_start quiet_isolate)) = None"
    by (simp_all add: error_message_def example_runtime_def)
  from inst[of error_message] e1 e2
  have e3: "fst (ReportMessage example_runtime None error_message quiet_isolate) =
       error_message\<lparr>message_argument := String ''exception''\<rparr>"
    by blast
  have o1: "IsJSObject (message_argument object_message)"
    and o2: "\<not> IsJSError (message_argument object_message)"
    and o3: "fst (Object_ToString example_runtime (message_argument object_message)
            (TryCatch_enter example_runtime (report_start quiet_isolate))) = None"
    by (simp_all add: object_message_def example_runtime_def)
  from inst[of object_message] o1 o2 o3
  have o4: "fst (ReportMessage example_runtime None object_message quiet_isolate) =
       object_message\<lparr>message_argument := String ''exception''\<rparr>"
    by blast
  have n1: "\<not> IsJSObject (message_argument example_message)"
    by (simp add: example_message_def)
  from inst[of example_message] n1
  have n2: "fst (ReportMessage example_runtime None example_message quiet_isolate) =
              example_message"
    by blast
  have e4: "snd (ReportMessage example_runtime None error_message quiet_isolate) =
       Inr ([Printed (''Uncaught exception'' @ [CHR 0x0A])], quiet_isolate)"
    by (simp add: ReportMessage_error_example)
  have o5: "snd (ReportMessage example_runtime None object_message quiet_isolate) =
       Inr ([Printed (''Uncaught exception'' @ [CHR 0x0A])], quiet_isolate)"
    by (simp add: ReportMessage_object_example)
  from e1 e2 e3 e4 o1 o2 o3 o4 o5 n1 n2 show ?thesis by blast
qed

subsection \<open>ConstructError\<close>

lemma own_property_defined:
  "SetOwnPropertyIgnoreAttributes e name v at = Some e' \<Longrightarrow>
   own_property e' n = (if n = name then Some (DataProperty v at) else own_property e n)"
  by (cases e) (auto simp: own_property_def update_conv')

lemma install_message_Some:
  assumes "install_message rt e message s = (Some e', s')"
  shows "(IsUndefined message \<and> e' = e \<and> s' = s) \<or>
         (\<not> IsUndefined message \<and>
          (\<exists>msg. Object_ToString rt message s = (Some msg, s') \<and>
                 SetOwnPropertyIgnoreAttributes e message_string (String msg) DONT_ENUM_only =
                   Some e'))"
  using assms
  by (auto simp: install_message_def split: if_splits prod.splits option.splits)

lemma install_message_fails:
  "\<not> IsUndefined message \<Longrightarrow> fst (Object_ToString rt message s) = None \<Longrightarrow>
   install_message rt e message s = (None, snd (Object_ToString rt message s))"
  by (cases "Object_ToString rt message s") (simp add: install_message_def)

lemma capture_detailed_Some:
  assumes "capture_detailed rt e suppress s = (Some e', s')"
  shows "(suppress \<and> e' = e \<and> s' = s) \<or>
         (\<not> suppress \<and>
          (\<exists>trace. CaptureDetailedStackTrace rt e s = (Some trace, s') \<and>
                   SetOwnPropertyIgnoreAttributes e detailed_stack_trace_symbol trace NONE =
                     Some e'))"
  using assms
  by (auto simp: capture_detailed_def CaptureAndSetDetailedStackTrace_def
      split: if_splits prod.splits option.splits)

lemma CaptureAndSetSimpleStackTrace_Some:
  assumes "CaptureAndSetSimpleStackTrace rt e mode caller s = (Some e', s')"
  shows "\<exists>trace. CaptureSimpleStackTrace rt e mode caller s = (Some trace, s') \<and>
           SetOwnPropertyIgnoreAttributes e stack_trace_symbol trace NONE = Some e'"
  using assms
  by (auto simp: CaptureAndSetSimpleStackTrace_def split: prod.splits option.splits)

lemma before_simple_trace_Some:
  assumes "before_simple_trace rt target new_target message suppress s = (Some e3, s3)"
  shows "\<exists>e1 s1 e2 s2.
           allocate_error rt target new_target s = (Some e1, s1) \<and>
           install_message rt e1 message s1 = (Some e2, s2) \<and>
           capture_detailed rt e2 suppress s2 = (Some e3, s3)"
  using assms
  by (auto simp: before_simple_trace_def split: prod.splits option.splits)

lemma ConstructError_Some:
  assumes "ConstructError rt target new_target message mode suppress s = (Some err, s')"
  shows "\<exists>e3 s3.
           before_simple_trace rt target new_target message suppress s = (Some e3, s3) \<and>
           CaptureAndSetSimpleStackTrace rt e3 (refined_mode mode new_target)
             (refined_caller mode new_target) s3 = (Some err, s')"
  using assms
  by (auto simp: ConstructError_def split: prod.splits option.splits)

lemma symbols_not_message:
  "message_string \<noteq> detailed_stack_trace_symbol" "message_string \<noteq> stack_trace_symbol"
  by (simp_all add: message_string_def detailed_stack_trace_symbol_def stack_trace_symbol_def)

lemma ConstructError_steps:
  assumes "ConstructError rt target new_target message mode suppress s = (Some err, s')"
  shows "\<exists>e1 s1 e2 s2 e3 s3 trace.
           allocate_error rt target new_target s = (Some e1, s1) \<and>
           install_message rt e1 message s1 = (Some e2, s2) \<and>
           capture_detailed rt e2 suppress s2 = (Some e3, s3) \<and>
           CaptureSimpleStackTrace rt e3 (refined_mode mode new_target)
             (refined_caller mode new_target) s3 = (Some trace, s') \<and>
           SetOwnPropertyIgnoreAttributes e3 stack_trace_symbol trace NONE = Some err \<and>
           own_property e3 message_string = own_property e2 message_string \<and>
           own_property err message_string = own_property e2 message_string"
proof -
  from ConstructError_Some[OF assms] obtain e3 s3 where
    b: "before_simple_trace rt target new_target message suppress s = (Some e3, s3)" and
    c: "CaptureAndSetSimpleStackTrace rt e3 (refined_mode mode new_target)
             (refined_caller mode new_target) s3 = (Some err, s')"
    by blast
  from before_simple_trace_Some[OF b] obtain e1 s1 e2 s2 where
    a: "allocate_error rt target new_target s = (Some e1, s1)" and
    i: "install_message rt e1 message s1 = (Some e2, s2)" and
    d: "capture_detailed rt e2 suppress s2 = (Some e3, s3)"
    by blast
  from CaptureAndSetSimpleStackTrace_Some[OF c] obtain trace where
    t: "CaptureSimpleStackTrace rt e3 (refined_mode mode new_target)
             (refined_caller mode new_target) s3 = (Some trace, s')" and
    st: "SetOwnPropertyIgnoreAttributes e3 stack_trace_symbol trace NONE = Some err"
    by blast
  have m3: "own_property e3 message_string = own_property e2 message_string"
    using capture_detailed_Some[OF d] own_property_defined symbols_not_message(1)
    by (metis (full_types))
  have m4: "own_property err message_string = own_property e3 message_string"
    using own_property_defined[OF st] symbols_not_message(2) by simp
  from a i d t st m3 m4 show ?thesis by auto
qed

text \<open>
  Claim C7. When \<open>ConstructError\<close> returns an object, every step has succeeded: the
  allocation, the installation of the message, the detailed capture (when it is not
  suppressed) and the simple capture. For an \<open>undefined\<close> message the object has the own
  property \<open>message\<close> of the freshly allocated object and no other: nothing is installed.
  For any other message the conversion to a string has succeeded, and the own property
  \<open>message\<close> of the object is a data property whose value is the result of the
  conversion, not enumerable, writable and configurable. When the conversion fails,
  \<open>ConstructError\<close> fails and returns no object.
\<close>

theorem ConstructError_message_property:
  "(ConstructError rt target new_target message mode suppress s = (Some err, s') \<longrightarrow>
      (\<exists>e1 s1 e2 s2 e3 s3 trace.
         allocate_error rt target new_target s = (Some e1, s1)
         \<and> install_message rt e1 message s1 = (Some e2, s2)
         \<and> capture_detailed rt e2 suppress s2 = (Some e3, s3)
         \<and> CaptureSimpleStackTrace rt e3 (refined_mode mode new_target)
              (refined_caller mode new_target) s3 = (Some trace, s')
         \<and> (IsUndefined message \<longrightarrow>
              own_property err message_string = own_property e1 message_string)
         \<and> (\<not> IsUndefined message \<longrightarrow>
              (\<exists>msg. Object_ToString rt message s1 = (Some msg, s2)
                 \<and> own_property err message_string =
                     Some (DataProperty (String msg)
                            \<lparr>READ_ONLY = False, DONT_ENUM = True, DONT_DELETE = False\<rparr>)))))
   \<and> (\<forall>e1 s1. allocate_error rt target new_target s = (Some e1, s1)
          \<and> \<not> IsUndefined message \<and> fst (Object_ToString rt message s1) = None \<longrightarrow>
        ConstructError rt target new_target message mode suppress s =
          (None, snd (Object_ToString rt message s1)))"
proof (intro conjI impI allI)
  assume ok: "ConstructError rt target new_target message mode suppress s = (Some err, s')"
  from ConstructError_steps[OF ok] obtain e1 s1 e2 s2 e3 s3 trace where
    a: "allocate_error rt target new_target s = (Some e1, s1)" and
    i: "install_message rt e1 message s1 = (Some e2, s2)" and
    d: "capture_detailed rt e2 suppress s2 = (Some e3, s3)" and
    t: "CaptureSimpleStackTrace rt e3 (refined_mode mode new_target)
             (refined_caller mode new_target) s3 = (Some trace, s')" and
    m: "own_property err message_string = own_property e2 message_string"
    by blast
  have u: "IsUndefined message \<longrightarrow>
             own_property err message_string = own_property e1 message_string"
    using install_message_Some[OF i] m by auto
  have p: "\<not> IsUndefined message \<longrightarrow>
              (\<exists>msg. Object_ToString rt message s1 = (Some msg, s2)
                 \<and> own_property err message_string =
                     Some (DataProperty (String msg)
                            \<lparr>READ_ONLY = False, DONT_ENUM = True, DONT_DELETE = False\<rparr>))"
  proof
    assume "\<not> IsUndefined message"
    with install_message_Some[OF i] obtain msg where
      ts: "Object_ToString rt message s1 = (Some msg, s2)" and
      set: "SetOwnPropertyIgnoreAttributes e1 message_string (String msg) DONT_ENUM_only =
              Some e2"
      by blast
    from own_property_defined[OF set, of message_string] m
    have "own_property err message_string =
            Some (DataProperty (String msg)
                   \<lparr>READ_ONLY = False, DONT_ENUM = True, DONT_DELETE = False\<rparr>)"
      by (simp add: DONT_ENUM_only_def)
    with ts show "\<exists>msg. Object_ToString rt message s1 = (Some msg, s2)
                 \<and> own_property err message_string =
                     Some (DataProperty (String msg)
                            \<lparr>READ_ONLY = False, DONT_ENUM = True, DONT_DELETE = False\<rparr>)"
      by blast
  qed
  from a i d t u p
  show "\<exists>e1 s1 e2 s2 e3 s3 trace.
         allocate_error rt target new_target s = (Some e1, s1)
         \<and> install_message rt e1 message s1 = (Some e2, s2)
         \<and> capture_detailed rt e2 suppress s2 = (Some e3, s3)
         \<and> CaptureSimpleStackTrace rt e3 (refined_mode mode new_target)
              (refined_caller mode new_target) s3 = (Some trace, s')
         \<and> (IsUndefined message \<longrightarrow>
              own_property err message_string = own_property e1 message_string)
         \<and> (\<not> IsUndefined message \<longrightarrow>
              (\<exists>msg. Object_ToString rt message s1 = (Some msg, s2)
                 \<and> own_property err message_string =
                     Some (DataProperty (String msg)
                            \<lparr>READ_ONLY = False, DONT_ENUM = True, DONT_DELETE = False\<rparr>)))"
    by blast
next
  fix e1 s1
  assume h: "allocate_error rt target new_target s = (Some e1, s1)
          \<and> \<not> IsUndefined message \<and> fst (Object_ToString rt message s1) = None"
  then have "install_message rt e1 message s1 = (None, snd (Object_ToString rt message s1))"
    using install_message_fails by blast
  with h show "ConstructError rt target new_target message mode suppress s =
          (None, snd (Object_ToString rt message s1))"
    by (simp add: ConstructError_def before_simple_trace_def)
qed

text \<open>
  Claim C8. Once the steps before it have succeeded, with or without the detailed trace,
  \<open>ConstructError\<close> is the capture of the simple trace: under the skip mode it was given,
  or, when that mode is \<open>SKIP_FIRST\<close> and the new target is a function, under
  \<open>SKIP_UNTIL_SEEN\<close> with the new target as the caller. The object that
  \<open>ConstructError\<close> returns holds the frames captured under that mode.
\<close>

theorem ConstructError_simple_trace:
  "(before_simple_trace rt target new_target message suppress s = (Some e, s3) \<longrightarrow>
      ConstructError rt target new_target message mode suppress s =
        CaptureAndSetSimpleStackTrace rt e
          (if mode = SKIP_FIRST \<and> IsJSFunction new_target then SKIP_UNTIL_SEEN else mode)
          (if mode = SKIP_FIRST \<and> IsJSFunction new_target then Some new_target else None) s3)
   \<and> (ConstructError rt target new_target message mode suppress s = (Some err, s') \<longrightarrow>
      (\<exists>e3 s3 trace.
         before_simple_trace rt target new_target message suppress s = (Some e3, s3)
         \<and> CaptureSimpleStackTrace rt e3
              (if mode = SKIP_FIRST \<and> IsJSFunction new_target then SKIP_UNTIL_SEEN else mode)
              (if mode = SKIP_FIRST \<and> IsJSFunction new_target then Some new_target else None)
              s3 = (Some trace, s')
         \<and> own_property err stack_trace_symbol = Some (DataProperty trace NONE)))"
proof (intro conjI impI)
  assume "before_simple_trace rt target new_target message suppress s = (Some e, s3)"
  then show "ConstructError rt target new_target message mode suppress s =
        CaptureAndSetSimpleStackTrace rt e
          (if mode = SKIP_FIRST \<and> IsJSFunction new_target then SKIP_UNTIL_SEEN else mode)
          (if mode = SKIP_FIRST \<and> IsJSFunction new_target then Some new_target else None) s3"
    by (simp add: ConstructError_def refined_mode_def refined_caller_def)
next
  assume ok: "ConstructError rt target new_target message mode suppress s = (Some err, s')"
  from ConstructError_Some[OF ok] obtain e3 s3 where
    b: "before_simple_trace rt target new_target message suppress s = (Some e3, s3)" and
    c: "CaptureAndSetSimpleStackTrace rt e3 (refined_mode mode new_target)
             (refined_caller mode new_target) s3 = (Some err, s')"
    by blast
  from CaptureAndSetSimpleStackTrace_Some[OF c] obtain trace where
    t: "CaptureSimpleStackTrace rt e3 (refined_mode mode new_target)
             (refined_caller mode new_target) s3 = (Some trace, s')" and
    st: "SetOwnPropertyIgnoreAttributes e3 stack_trace_symbol trace NONE = Some err"
    by blast
  from own_property_defined[OF st, of stack_trace_symbol]
  have "own_property err stack_trace_symbol = Some (DataProperty trace NONE)" by simp
  with b t show "\<exists>e3 s3 trace.
         before_simple_trace rt target new_target message suppress s = (Some e3, s3)
         \<and> CaptureSimpleStackTrace rt e3
              (if mode = SKIP_FIRST \<and> IsJSFunction new_target then SKIP_UNTIL_SEEN else mode)
              (if mode = SKIP_FIRST \<and> IsJSFunction new_target then Some new_target else None)
              s3 = (Some trace, s')
         \<and> own_property err stack_trace_symbol = Some (DataProperty trace NONE)"
    unfolding refined_mode_def refined_caller_def by blast
qed

lemma allocate_example:
  "allocate_error example_runtime error_function subclass_function s =
     (Some (JSObject 100 JS_ERROR [] (JSObject 13 JS_OBJECT [] Null False) False), s)"
  "allocate_error example_runtime error_function Undefined s =
     (Some (JSObject 100 JS_ERROR [] (JSObject 11 JS_OBJECT [] Null False) False), s)"
  by (simp_all add: allocate_error_def example_runtime_def subclass_function_def
      error_function_def GetDataProperty_def)

lemma ToString_example:
  "Object_ToString example_runtime (Smi 42) s = (Some ''42'', s)"
  "fst (Object_ToString example_runtime unprintable s) = None"
proof -
  show "Object_ToString example_runtime (Smi 42) s = (Some ''42'', s)"
    by (simp add: example_runtime_def decimal_42)
  show "fst (Object_ToString example_runtime unprintable s) = None"
    by (simp add: example_runtime_def unprintable_def)
qed

lemma capture_example:
  "CaptureDetailedStackTrace example_runtime e s = (Some (Smi 0), s)"
  "CaptureSimpleStackTrace example_runtime e SKIP_UNTIL_SEEN (Some c) s = (Some c, s)"
  "CaptureSimpleStackTrace example_runtime e SKIP_FIRST caller s = (Some (Smi 1), s)"
  by (simp_all add: example_runtime_def)

lemma subclass_is_function: "IsJSFunction subclass_function"
  by (simp add: subclass_function_def)

lemma ConstructError_subclass_example:
  "ConstructError example_runtime error_function subclass_function (Smi 42) SKIP_FIRST False
     quiet_isolate = (Some subclass_error, quiet_isolate)"
  by (simp add: ConstructError_def before_simple_trace_def allocate_example install_message_def
      ToString_example capture_detailed_def CaptureAndSetDetailedStackTrace_def
      CaptureAndSetSimpleStackTrace_def capture_example refined_mode_def refined_caller_def
      subclass_error_def message_string_def detailed_stack_trace_symbol_def
      stack_trace_symbol_def subclass_is_function)

lemma ConstructError_plain_example:
  "ConstructError example_runtime error_function Undefined Undefined SKIP_FIRST True
     quiet_isolate = (Some plain_error, quiet_isolate)"
  by (simp add: ConstructError_def before_simple_trace_def allocate_example install_message_def
      capture_detailed_def CaptureAndSetSimpleStackTrace_def capture_example refined_mode_def
      refined_caller_def plain_error_def)

theorem ConstructError_message_property_witness:
  "ConstructError example_runtime error_function subclass_function (Smi 42) SKIP_FIRST False
     quiet_isolate = (Some subclass_error, quiet_isolate)
   \<and> \<not> IsUndefined (Smi 42)
   \<and> Object_ToString example_runtime (Smi 42) quiet_isolate = (Some ''42'', quiet_isolate)
   \<and> own_property subclass_error message_string =
       Some (DataProperty (String ''42'')
              \<lparr>READ_ONLY = False, DONT_ENUM = True, DONT_DELETE = False\<rparr>)
   \<and> ConstructError example_runtime error_function Undefined Undefined SKIP_FIRST True
        quiet_isolate = (Some plain_error, quiet_isolate)
   \<and> IsUndefined Undefined
   \<and> own_property plain_error message_string = None
   \<and> allocate_error example_runtime error_function Undefined quiet_isolate =
       (Some (JSObject 100 JS_ERROR [] (JSObject 11 JS_OBJECT [] Null False) False),
        quiet_isolate)
   \<and> \<not> IsUndefined unprintable
   \<and> fst (Object_ToString example_runtime unprintable quiet_isolate) = None
   \<and> fst (ConstructError example_runtime error_function Undefined unprintable SKIP_FIRST True
             quiet_isolate) = None"
proof -
  note inst = ConstructError_message_property[where rt = example_runtime
      and target = error_function and s = quiet_isolate]
  from inst[of subclass_function "Smi 42" SKIP_FIRST False subclass_error quiet_isolate]
    ConstructError_subclass_example
  have a: "own_property subclass_error message_string =
       Some (DataProperty (String ''42'')
              \<lparr>READ_ONLY = False, DONT_ENUM = True, DONT_DELETE = False\<rparr>)"
    by (auto simp: allocate_example ToString_example)
  from inst[of Undefined Undefined SKIP_FIRST True plain_error quiet_isolate]
    ConstructError_plain_example
  have b: "own_property plain_error message_string = None"
    by (auto simp: allocate_example own_property_def)
  have u: "\<not> IsUndefined unprintable"
    by (simp add: unprintable_def)
  from inst[of Undefined unprintable SKIP_FIRST True] u
  have c: "fst (ConstructError example_runtime error_function Undefined unprintable SKIP_FIRST
                  True quiet_isolate) = None"
    by (simp add: allocate_example ToString_example)
  from ConstructError_subclass_example ConstructError_plain_example a b c u
  show ?thesis
    by (simp add: ToString_example allocate_example)
qed

theorem ConstructError_simple_trace_witness:
  "before_simple_trace example_runtime error_function subclass_function (Smi 42) False
     quiet_isolate =
     (Some (JSObject 100 JS_ERROR
              [(message_string, DataProperty (String ''42'') DONT_ENUM_only),
               (detailed_stack_trace_symbol, DataProperty (Smi 0) NONE)]
              (JSObject 13 JS_OBJECT [] Null False) False), quiet_isolate)
   \<and> ConstructError example_runtime error_function subclass_function (Smi 42) SKIP_FIRST False
       quiet_isolate = (Some subclass_error, quiet_isolate)
   \<and> IsJSFunction subclass_function
   \<and> own_property subclass_error stack_trace_symbol =
       Some (DataProperty subclass_function NONE)
   \<and> ConstructError example_runtime error_function Undefined Undefined SKIP_FIRST True
        quiet_isolate = (Some plain_error, quiet_isolate)
   \<and> \<not> IsJSFunction Undefined
   \<and> own_property plain_error stack_trace_symbol = Some (DataProperty (Smi 1) NONE)"
proof -
  let ?before = "JSObject 100 JS_ERROR
              [(message_string, DataProperty (String ''42'') DONT_ENUM_only),
               (detailed_stack_trace_symbol, DataProperty (Smi 0) NONE)]
              (JSObject 13 JS_OBJECT [] Null False) False"
  note inst = ConstructError_simple_trace[where rt = example_runtime
      and target = error_function and s = quiet_isolate]
  have b: "before_simple_trace example_runtime error_function subclass_function (Smi 42) False
     quiet_isolate = (Some ?before, quiet_isolate)"
    by (simp add: before_simple_trace_def allocate_example install_message_def
      ToString_example capture_detailed_def CaptureAndSetDetailedStackTrace_def
      capture_example message_string_def detailed_stack_trace_symbol_def)
  from inst[of subclass_function "Smi 42" False ?before quiet_isolate SKIP_FIRST] b
  have c: "ConstructError example_runtime error_function subclass_function (Smi 42) SKIP_FIRST
             False quiet_isolate =
           CaptureAndSetSimpleStackTrace example_runtime ?before SKIP_UNTIL_SEEN
             (Some subclass_function) quiet_isolate"
    by (simp add: subclass_is_function)
  have d: "CaptureAndSetSimpleStackTrace example_runtime ?before SKIP_UNTIL_SEEN
             (Some subclass_function) quiet_isolate = (Some subclass_error, quiet_isolate)"
    by (simp add: CaptureAndSetSimpleStackTrace_def capture_example subclass_error_def
        message_string_def detailed_stack_trace_symbol_def stack_trace_symbol_def)
  from inst[of subclass_function "Smi 42" False _ _ SKIP_FIRST subclass_error quiet_isolate]
    c d
  have e: "own_property subclass_error stack_trace_symbol =
       Some (DataProperty subclass_function NONE)"
    by (auto simp: subclass_is_function capture_example)
  from inst[of Undefined Undefined True _ _ SKIP_FIRST plain_error quiet_isolate]
    ConstructError_plain_example
  have f: "own_property plain_error stack_trace_symbol = Some (DataProperty (Smi 1) NONE)"
    by (auto simp: capture_example)
  from b c d e f ConstructError_plain_example subclass_is_function show ?thesis
    by simp
qed

end
